theory Spec2Isabelle
  imports Complex_Main "HOL-Library.AList" "HOL-Library.Char_ord" "HOL-Library.List_Lexorder"
begin

section \<open>Floating-point values\<close>

text \<open>
  The program computes with IEEE double-precision numbers (Python floats and numpy
  arrays of float64). They are modelled by the exact reals extended with the three special
  values the code's control flow depends on: \<open>PInf\<close> and \<open>NInf\<close> (numpy's \<open>inf\<close> and
  \<open>-inf\<close>) and \<open>NaN\<close>. Rounding, overflow to infinity and the sign of zero are not
  modelled: a finite operation returns the exact real result, and zero is the positive zero.
  The operations follow the IEEE rules numpy implements: arithmetic on arrays never raises,
  an undefined result is \<open>NaN\<close>, and every comparison with \<open>NaN\<close> is false.
\<close>

datatype fl = Fin real | PInf | NInf | NaN

fun isfinite :: "fl \<Rightarrow> bool" where
  "isfinite (Fin _) = True"
| "isfinite _ = False"

instantiation fl :: "{plus, minus, uminus, times, inverse, ord, abs}"
begin

fun plus_fl :: "fl \<Rightarrow> fl \<Rightarrow> fl" where
  "plus_fl (Fin a) (Fin b) = Fin (a + b)"
| "plus_fl NaN _ = NaN"
| "plus_fl _ NaN = NaN"
| "plus_fl PInf NInf = NaN"
| "plus_fl NInf PInf = NaN"
| "plus_fl PInf _ = PInf"
| "plus_fl _ PInf = PInf"
| "plus_fl NInf _ = NInf"
| "plus_fl _ NInf = NInf"

fun uminus_fl :: "fl \<Rightarrow> fl" where
  "uminus_fl (Fin a) = Fin (- a)"
| "uminus_fl PInf = NInf"
| "uminus_fl NInf = PInf"
| "uminus_fl NaN = NaN"

definition minus_fl :: "fl \<Rightarrow> fl \<Rightarrow> fl" where
  "minus_fl a b = a + (- b)"

fun times_fl :: "fl \<Rightarrow> fl \<Rightarrow> fl" where
  "times_fl (Fin a) (Fin b) = Fin (a * b)"
| "times_fl NaN _ = NaN"
| "times_fl _ NaN = NaN"
| "times_fl PInf (Fin b) = (if b = 0 then NaN else if 0 < b then PInf else NInf)"
| "times_fl NInf (Fin b) = (if b = 0 then NaN else if 0 < b then NInf else PInf)"
| "times_fl (Fin a) PInf = (if a = 0 then NaN else if 0 < a then PInf else NInf)"
| "times_fl (Fin a) NInf = (if a = 0 then NaN else if 0 < a then NInf else PInf)"
| "times_fl PInf PInf = PInf"
| "times_fl NInf NInf = PInf"
| "times_fl PInf NInf = NInf"
| "times_fl NInf PInf = NInf"

fun divide_fl :: "fl \<Rightarrow> fl \<Rightarrow> fl" where
  "divide_fl (Fin a) (Fin b) =
     (if b \<noteq> 0 then Fin (a / b) else if a = 0 then NaN else if 0 < a then PInf else NInf)"
| "divide_fl NaN _ = NaN"
| "divide_fl _ NaN = NaN"
| "divide_fl (Fin a) _ = Fin 0"
| "divide_fl PInf (Fin b) = (if 0 \<le> b then PInf else NInf)"
| "divide_fl NInf (Fin b) = (if 0 \<le> b then NInf else PInf)"
| "divide_fl _ _ = NaN"

fun inverse_fl :: "fl \<Rightarrow> fl" where
  "inverse_fl (Fin b) = (if b \<noteq> 0 then Fin (1 / b) else PInf)"
| "inverse_fl NaN = NaN"
| "inverse_fl _ = Fin 0"

fun less_fl :: "fl \<Rightarrow> fl \<Rightarrow> bool" where
  "less_fl (Fin a) (Fin b) = (a < b)"
| "less_fl NaN _ = False"
| "less_fl _ NaN = False"
| "less_fl NInf NInf = False"
| "less_fl NInf _ = True"
| "less_fl _ NInf = False"
| "less_fl PInf _ = False"
| "less_fl _ PInf = True"

definition less_eq_fl :: "fl \<Rightarrow> fl \<Rightarrow> bool" where
  "less_eq_fl a b = (a < b \<or> (a = b \<and> a \<noteq> NaN))"

fun abs_fl :: "fl \<Rightarrow> fl" where
  "abs_fl (Fin a) = Fin \<bar>a\<bar>"
| "abs_fl PInf = PInf"
| "abs_fl NInf = PInf"
| "abs_fl NaN = NaN"

instance ..

end

text \<open>numpy's elementwise functions, on one element.\<close>

fun np_maximum :: "fl \<Rightarrow> fl \<Rightarrow> fl" where
  "np_maximum NaN _ = NaN"
| "np_maximum _ NaN = NaN"
| "np_maximum a b = (if a < b then b else a)"

fun np_sin :: "fl \<Rightarrow> fl" where
  "np_sin (Fin x) = Fin (sin x)"
| "np_sin _ = NaN"

fun np_cos :: "fl \<Rightarrow> fl" where
  "np_cos (Fin x) = Fin (cos x)"
| "np_cos _ = NaN"

text \<open>
  In floating point no argument is exactly a pole of the tangent, and \<open>np.tan\<close> of a finite
  number is finite; the model keeps it finite (HOL's \<open>tan\<close> is \<open>sin x / cos x\<close>, and 0 at
  a pole).
\<close>

fun np_tan :: "fl \<Rightarrow> fl" where
  "np_tan (Fin x) = Fin (tan x)"
| "np_tan _ = NaN"

fun np_exp :: "fl \<Rightarrow> fl" where
  "np_exp (Fin x) = Fin (exp x)"
| "np_exp PInf = PInf"
| "np_exp NInf = Fin 0"
| "np_exp NaN = NaN"

fun np_log :: "fl \<Rightarrow> fl" where
  "np_log (Fin x) = (if 0 < x then Fin (ln x) else if x = 0 then NInf else NaN)"
| "np_log PInf = PInf"
| "np_log NInf = NaN"
| "np_log NaN = NaN"

fun np_sqrt :: "fl \<Rightarrow> fl" where
  "np_sqrt (Fin x) = (if 0 \<le> x then Fin (sqrt x) else NaN)"
| "np_sqrt PInf = PInf"
| "np_sqrt NInf = NaN"
| "np_sqrt NaN = NaN"

definition np_radians :: "fl \<Rightarrow> fl" where
  "np_radians x = x * Fin (pi / 180)"

text \<open>\<open>np.hypot\<close>: an infinite argument wins over \<open>NaN\<close>.\<close>

fun np_hypot :: "fl \<Rightarrow> fl \<Rightarrow> fl" where
  "np_hypot (Fin x) (Fin y) = Fin (sqrt (x * x + y * y))"
| "np_hypot PInf _ = PInf"
| "np_hypot NInf _ = PInf"
| "np_hypot _ PInf = PInf"
| "np_hypot _ NInf = PInf"
| "np_hypot _ _ = NaN"

text \<open>\<open>np.arctan2 y x\<close>: the angle of the point \<open>(x, y)\<close>, in \<open>(-pi, pi]\<close>.\<close>

definition atan2 :: "real \<Rightarrow> real \<Rightarrow> real" where
  "atan2 y x =
     (if 0 < x then arctan (y / x)
      else if x < 0 then (if 0 \<le> y then arctan (y / x) + pi else arctan (y / x) - pi)
      else if 0 < y then pi / 2
      else if y < 0 then - (pi / 2)
      else 0)"

fun np_arctan2 :: "fl \<Rightarrow> fl \<Rightarrow> fl" where
  "np_arctan2 (Fin y) (Fin x) = Fin (atan2 y x)"
| "np_arctan2 NaN _ = NaN"
| "np_arctan2 _ NaN = NaN"
| "np_arctan2 (Fin y) PInf = Fin 0"
| "np_arctan2 (Fin y) NInf = (if 0 \<le> y then Fin pi else Fin (- pi))"
| "np_arctan2 PInf (Fin x) = Fin (pi / 2)"
| "np_arctan2 NInf (Fin x) = Fin (- (pi / 2))"
| "np_arctan2 PInf PInf = Fin (pi / 4)"
| "np_arctan2 PInf NInf = Fin (3 * pi / 4)"
| "np_arctan2 NInf PInf = Fin (- (pi / 4))"
| "np_arctan2 NInf NInf = Fin (- (3 * pi / 4))"

text \<open>
  \<open>np.power x p\<close> (C's \<open>pow\<close>): 1 when the exponent is zero or the base is one, even for
  \<open>NaN\<close>; \<open>NaN\<close> for a negative base with an exponent that is no integer.
\<close>

definition pow_real :: "real \<Rightarrow> real \<Rightarrow> fl" where
  "pow_real x p =
     (if p = 0 then Fin 1
      else if 0 < x then Fin (x powr p)
      else if x = 0 then (if 0 < p then Fin 0 else PInf)
      else if p = of_int \<lfloor>p\<rfloor> then Fin (if even \<lfloor>p\<rfloor> then (- x) powr p else - ((- x) powr p))
      else NaN)"

fun np_power :: "fl \<Rightarrow> fl \<Rightarrow> fl" where
  "np_power (Fin x) (Fin p) = pow_real x p"
| "np_power NaN (Fin p) = (if p = 0 then Fin 1 else NaN)"
| "np_power (Fin x) NaN = (if x = 1 then Fin 1 else NaN)"
| "np_power (Fin x) PInf =
     (if \<bar>x\<bar> < 1 then Fin 0 else if \<bar>x\<bar> = 1 then Fin 1 else PInf)"
| "np_power (Fin x) NInf =
     (if x = 0 then PInf else if \<bar>x\<bar> < 1 then PInf else if \<bar>x\<bar> = 1 then Fin 1 else Fin 0)"
| "np_power PInf (Fin p) = (if p = 0 then Fin 1 else if 0 < p then PInf else Fin 0)"
| "np_power NInf (Fin p) =
     (if p = 0 then Fin 1
      else if p < 0 then Fin 0
      else if p = of_int \<lfloor>p\<rfloor> \<and> odd \<lfloor>p\<rfloor> then NInf else PInf)"
| "np_power PInf PInf = PInf"
| "np_power NInf PInf = PInf"
| "np_power PInf NInf = Fin 0"
| "np_power NInf NInf = Fin 0"
| "np_power _ _ = NaN"

section \<open>Deprojection (deprojection.py)\<close>

text \<open>
  The functions of \<open>deprojection.py\<close> work on whole arrays, element by element; each is
  modelled on one pixel, and \<open>get_flared_coords\<close> applies them to every pixel of the grid.
  A grid is the list of its rows.
\<close>

definition z_func :: "fl \<Rightarrow> fl \<Rightarrow> fl \<Rightarrow> fl \<Rightarrow> fl \<Rightarrow> fl \<Rightarrow> fl" where
  "z_func r_in z0 r_cavity r_taper psi q_taper =
     (let r = np_maximum (r_in - r_cavity) (Fin 0);
          z = z0 * np_power r psi * np_exp (- np_power (r / r_taper) q_taper)
      in np_maximum z (Fin 0))"

definition w_func :: "fl \<Rightarrow> fl \<Rightarrow> fl \<Rightarrow> fl \<Rightarrow> fl \<Rightarrow> fl \<Rightarrow> fl" where
  "w_func r_in t r_cavity w_r w_i w_t =
     (let r = np_maximum (r_in - r_cavity) (Fin 0);
          warp = np_radians w_i * np_exp (Fin (- 0.5) * np_power (r / w_r) (Fin 2))
      in r * np_tan (warp * np_sin (t - np_radians w_t)))"

definition rotate_coords :: "fl \<Rightarrow> fl \<Rightarrow> fl \<Rightarrow> fl \<times> fl" where
  "rotate_coords x y PA =
     (let x_rot = y * np_cos (np_radians PA) + x * np_sin (np_radians PA);
          y_rot = x * np_cos (np_radians PA) - y * np_sin (np_radians PA)
      in (x_rot, y_rot))"

definition deproject_coords :: "fl \<Rightarrow> fl \<Rightarrow> fl \<Rightarrow> fl \<times> fl" where
  "deproject_coords x y inc = (x, y / np_cos (np_radians inc))"

text \<open>\<open>np.meshgrid (xaxis - x0) (yaxis - y0)\<close>: one row per element of \<open>yaxis\<close>.\<close>

definition get_cart_sky_coords :: "fl \<Rightarrow> fl \<Rightarrow> fl list \<Rightarrow> fl list \<Rightarrow> (fl \<times> fl) list list" where
  "get_cart_sky_coords x0 y0 xaxis yaxis =
     map (\<lambda>y. map (\<lambda>x. (x - x0, y - y0)) xaxis) yaxis"

definition midplane_px :: "fl \<Rightarrow> fl \<Rightarrow> fl \<times> fl \<Rightarrow> fl \<times> fl" where
  "midplane_px inc PA sky =
     (let (x_rot, y_rot) = rotate_coords (fst sky) (snd sky) PA
      in deproject_coords x_rot y_rot inc)"

definition get_midplane_cart_coords ::
  "fl \<Rightarrow> fl \<Rightarrow> fl \<Rightarrow> fl \<Rightarrow> fl list \<Rightarrow> fl list \<Rightarrow> (fl \<times> fl) list list" where
  "get_midplane_cart_coords x0 y0 inc PA xaxis yaxis =
     map (map (midplane_px inc PA)) (get_cart_sky_coords x0 y0 xaxis yaxis)"

text \<open>
  The body of the loop of \<open>_get_flared_coords\<close>, and the loop itself: \<open>niter\<close> rounds
  from the flat-disk radius and azimuth.
\<close>

definition flared_step ::
  "fl \<Rightarrow> fl \<Rightarrow> fl \<Rightarrow> fl \<Rightarrow> fl \<Rightarrow> fl \<Rightarrow> fl \<Rightarrow> fl \<Rightarrow> fl \<Rightarrow> fl \<Rightarrow> fl \<Rightarrow> fl \<times> fl \<Rightarrow> fl \<times> fl" where
  "flared_step x_mid y_mid inc z0 r_cavity r_taper psi q_taper w_r w_i w_t rt =
     (let r_tmp = fst rt; t_tmp = snd rt;
          z_tmp = z_func r_tmp z0 r_cavity r_taper psi q_taper
                  + w_func r_tmp t_tmp r_cavity w_r w_i w_t;
          y_tmp = y_mid + z_tmp * np_tan (np_radians inc)
      in (np_hypot y_tmp x_mid, np_arctan2 y_tmp x_mid))"

fun flared_loop ::
  "nat \<Rightarrow> fl \<Rightarrow> fl \<Rightarrow> fl \<Rightarrow> fl \<Rightarrow> fl \<Rightarrow> fl \<Rightarrow> fl \<Rightarrow> fl \<Rightarrow> fl \<Rightarrow> fl \<Rightarrow> fl \<Rightarrow> fl \<times> fl \<Rightarrow> fl \<times> fl" where
  "flared_loop 0 x_mid y_mid inc z0 r_cavity r_taper psi q_taper w_r w_i w_t rt = rt"
| "flared_loop (Suc n) x_mid y_mid inc z0 r_cavity r_taper psi q_taper w_r w_i w_t rt =
     flared_loop n x_mid y_mid inc z0 r_cavity r_taper psi q_taper w_r w_i w_t
       (flared_step x_mid y_mid inc z0 r_cavity r_taper psi q_taper w_r w_i w_t rt)"

definition get_flared_coords_px ::
  "fl \<Rightarrow> fl \<Rightarrow> fl \<Rightarrow> fl \<Rightarrow> fl \<Rightarrow> fl \<Rightarrow> fl \<Rightarrow> fl \<Rightarrow> fl \<Rightarrow> fl \<Rightarrow> fl \<Rightarrow> nat \<Rightarrow> fl \<times> fl \<times> fl" where
  "get_flared_coords_px x_mid y_mid inc z0 r_cavity r_taper psi q_taper w_r w_i w_t niter =
     (let rt = flared_loop niter x_mid y_mid inc z0 r_cavity r_taper psi q_taper w_r w_i w_t
                 (np_hypot x_mid y_mid, np_arctan2 y_mid x_mid)
      in (fst rt, snd rt, z_func (fst rt) z0 r_cavity r_taper psi q_taper))"

definition get_flared_coords ::
  "fl \<Rightarrow> fl \<Rightarrow> fl list \<Rightarrow> fl list \<Rightarrow> fl \<Rightarrow> fl \<Rightarrow> fl \<Rightarrow> fl \<Rightarrow> fl \<Rightarrow> fl \<Rightarrow> fl \<Rightarrow> fl \<Rightarrow> fl \<Rightarrow> fl \<Rightarrow> nat
     \<Rightarrow> (fl \<times> fl \<times> fl) list list" where
  "get_flared_coords x0 y0 xaxis yaxis inc PA z0 r_cavity r_taper psi q_taper w_r w_i w_t niter =
     map (map (\<lambda>mid. get_flared_coords_px (fst mid) (snd mid) inc z0
                        r_cavity r_taper psi q_taper w_r w_i w_t niter))
       (get_midplane_cart_coords x0 y0 inc PA xaxis yaxis)"

section \<open>Python values, errors and dictionaries\<close>

text \<open>
  Every exception the modelled code can raise is a value. The string names the key, the
  name or the cause; the messages of the source are not reproduced.
\<close>

datatype pyerr =
    KeyError string
  | NameError string
  | ValueError string
  | TypeError string
  | AttributeError string
  | IndexError
  | ZeroDivisionError

text \<open>A call that may raise, followed by the rest of the computation.\<close>

definition bind_err :: "pyerr + 'a \<Rightarrow> ('a \<Rightarrow> pyerr + 'b) \<Rightarrow> pyerr + 'b" where
  "bind_err m f = (case m of Inl e \<Rightarrow> Inl e | Inr x \<Rightarrow> f x)"

text \<open>
  A number is a Python number (an \<open>int\<close> or a \<open>float\<close>) or a numpy scalar. The two
  differ in one way that matters here: dividing a Python number by a Python zero raises
  \<open>ZeroDivisionError\<close>, and numpy returns an infinity or \<open>NaN\<close>.
\<close>

datatype pynum = PyNum fl | NpNum fl

fun pn :: "pynum \<Rightarrow> fl" where
  "pn (PyNum x) = x"
| "pn (NpNum x) = x"

fun is_np :: "pynum \<Rightarrow> bool" where
  "is_np (PyNum _) = False"
| "is_np (NpNum _) = True"

definition join_num :: "pynum \<Rightarrow> pynum \<Rightarrow> fl \<Rightarrow> pynum" where
  "join_num a b x = (if is_np a \<or> is_np b then NpNum x else PyNum x)"

definition py_sub :: "pynum \<Rightarrow> pynum \<Rightarrow> pynum" where
  "py_sub a b = join_num a b (pn a - pn b)"

definition py_truediv :: "pynum \<Rightarrow> pynum \<Rightarrow> pyerr + pynum" where
  "py_truediv a b =
     (if \<not> is_np a \<and> \<not> is_np b \<and> pn b = Fin 0 then Inl ZeroDivisionError
      else Inr (join_num a b (pn a / pn b)))"

text \<open>
  The values a parameter dictionary holds: an \<open>int\<close> (the index of a free parameter), a
  \<open>float\<close>, a numpy scalar (a free parameter once populated), a \<open>bool\<close> (a flag), a
  \<open>str\<close> or \<open>None\<close>. A \<open>bool\<close> is an \<open>int\<close> in Python and counts as the number 0 or 1.
\<close>

datatype pyval =
    PyInt int
  | PyFloat fl
  | NpFloat fl
  | PyBool bool
  | PyStr string
  | PyNone

fun num_of :: "pyval \<Rightarrow> pynum option" where
  "num_of (PyInt i) = Some (PyNum (Fin (of_int i)))"
| "num_of (PyFloat x) = Some (PyNum x)"
| "num_of (NpFloat x) = Some (NpNum x)"
| "num_of (PyBool b) = Some (PyNum (Fin (if b then 1 else 0)))"
| "num_of (PyStr _) = None"
| "num_of PyNone = None"

definition as_float :: "pyval \<Rightarrow> pyerr + fl" where
  "as_float v = (case num_of v of None \<Rightarrow> Inl (TypeError ''operand'') | Some q \<Rightarrow> Inr (pn q))"

text \<open>\<open>bool(v)\<close>.\<close>

fun py_bool :: "pyval \<Rightarrow> bool" where
  "py_bool (PyInt i) = (i \<noteq> 0)"
| "py_bool (PyFloat x) = (x \<noteq> Fin 0)"
| "py_bool (NpFloat x) = (x \<noteq> Fin 0)"
| "py_bool (PyBool b) = b"
| "py_bool (PyStr s) = (s \<noteq> [])"
| "py_bool PyNone = False"

text \<open>\<open>a >= b\<close>: numbers compare by value, strings by code points, anything else raises.\<close>

definition py_ge :: "pyval \<Rightarrow> pyval \<Rightarrow> pyerr + bool" where
  "py_ge a b =
     (case (a, b) of
        (PyStr s, PyStr t) \<Rightarrow> Inr (t \<le> s)
      | _ \<Rightarrow> (case (num_of a, num_of b) of
                 (Some x, Some y) \<Rightarrow> Inr (pn y \<le> pn x)
               | _ \<Rightarrow> Inl (TypeError ''>='')))"

text \<open>\<open>xs[i]\<close>: a negative index counts from the end.\<close>

definition py_index :: "'a list \<Rightarrow> int \<Rightarrow> pyerr + 'a" where
  "py_index xs i =
     (if 0 \<le> i \<and> i < int (length xs) then Inr (xs ! nat i)
      else if - int (length xs) \<le> i \<and> i < 0 then Inr (xs ! nat (int (length xs) + i))
      else Inl IndexError)"

text \<open>\<open>s.lower()\<close>, for ASCII letters.\<close>

definition lower_char :: "char \<Rightarrow> char" where
  "lower_char c =
     (let n = of_char c :: nat in if 65 \<le> n \<and> n \<le> 90 then char_of (n + 32) else c)"

definition py_lower :: "string \<Rightarrow> string" where
  "py_lower s = map lower_char s"

text \<open>
  A dictionary keeps its keys in the order they were inserted, and \<open>_ln_prior\<close> walks
  them in that order: it is an association list with distinct keys. \<open>d[k] = v\<close> is
  \<open>AList.update\<close> (in place for an old key, at the end for a new one), \<open>d[k]\<close> raises
  \<open>KeyError\<close> for a missing key, and \<open>d[k] = d.pop(k, default)\<close> moves the key to the end.
\<close>

type_synonym pydict = "(string \<times> pyval) list"

definition getitem :: "pydict \<Rightarrow> string \<Rightarrow> pyerr + pyval" where
  "getitem d k = (case map_of d k of None \<Rightarrow> Inl (KeyError k) | Some v \<Rightarrow> Inr v)"

definition pop_default :: "string \<Rightarrow> pyval \<Rightarrow> pydict \<Rightarrow> pydict" where
  "pop_default k dflt d =
     AList.update k (case map_of d k of None \<Rightarrow> dflt | Some v \<Rightarrow> v) (AList.delete k d)"

text \<open>\<open>d.get(k) is None\<close>: the key is missing, or it holds \<open>None\<close>.\<close>

definition get_is_none :: "pydict \<Rightarrow> string \<Rightarrow> bool" where
  "get_is_none d k = (case map_of d k of None \<Rightarrow> True | Some v \<Rightarrow> v = PyNone)"

text \<open>\<open>max(xs)\<close> of Python, and \<open>np.nanmin\<close>, \<open>np.nanmax\<close> on the flattened array.\<close>

definition py_max :: "fl list \<Rightarrow> pyerr + fl" where
  "py_max xs =
     (case xs of
        [] \<Rightarrow> Inl (ValueError ''max of an empty sequence'')
      | x # ys \<Rightarrow> Inr (fold (\<lambda>y m. if m < y then y else m) ys x))"

definition np_nanmin :: "fl list \<Rightarrow> pyerr + fl" where
  "np_nanmin xs =
     (case xs of
        [] \<Rightarrow> Inl (ValueError ''zero-size array'')
      | _ \<Rightarrow> (case filter (\<lambda>x. x \<noteq> NaN) xs of
                 [] \<Rightarrow> Inr NaN
               | y # ys \<Rightarrow> Inr (fold (\<lambda>z m. if z < m then z else m) ys y)))"

definition np_nanmax :: "fl list \<Rightarrow> pyerr + fl" where
  "np_nanmax xs =
     (case xs of
        [] \<Rightarrow> Inl (ValueError ''zero-size array'')
      | _ \<Rightarrow> (case filter (\<lambda>x. x \<noteq> NaN) xs of
                 [] \<Rightarrow> Inr NaN
               | y # ys \<Rightarrow> Inr (fold (\<lambda>z m. if m < z then z else m) ys y)))"

section \<open>Velocity profiles (models.py)\<close>

text \<open>
  The numeric module-level names of \<open>models.py\<close>: \<open>au\<close> and \<open>G\<close> are read from
  \<open>scipy.constants\<close> (the CODATA values), \<open>msun\<close> is a literal. The other module-level
  names are the imported modules and the four functions below. A name a function body
  reads without ever assigning it is looked up among these, and the lookup raises
  \<open>NameError\<close> when it is not there.
\<close>

definition models_globals :: "string \<rightharpoonup> fl" where
  "models_globals =
     [''au'' \<mapsto> Fin 149597870700, ''G'' \<mapsto> Fin (66743 / 10 ^ 15), ''msun'' \<mapsto> Fin (1988 * 10 ^ 27)]"

definition load_global :: "string \<Rightarrow> pyerr + fl" where
  "load_global n = (case models_globals n of None \<Rightarrow> Inl (NameError n) | Some v \<Rightarrow> Inr v)"

definition proj_vphi :: "fl \<Rightarrow> fl \<Rightarrow> fl \<Rightarrow> fl" where
  "proj_vphi v_phi tvals inc = v_phi * np_cos tvals * \<bar>np_sin (np_radians inc)\<bar>"

definition proj_vrad :: "fl \<Rightarrow> fl \<Rightarrow> fl \<Rightarrow> fl" where
  "proj_vrad v_rad tvals inc = v_rad * np_sin tvals * \<bar>np_sin (np_radians inc)\<bar>"

text \<open>
  \<open>proj_vkep\<close> and \<open>proj_vpow\<close> take the three coordinate arrays; the model takes the
  grid of triples \<open>(r, t, z)\<close> and works pixel by pixel.
\<close>

definition proj_vkep_px :: "fl \<Rightarrow> fl \<Rightarrow> fl \<Rightarrow> fl \<Rightarrow> fl \<Rightarrow> fl \<Rightarrow> fl \<Rightarrow> fl \<Rightarrow> fl \<Rightarrow> fl" where
  "proj_vkep_px au G msun rvals tvals zvals distance mstar inc =
     (let rvals = rvals * au * distance;
          zvals = zvals * au * distance;
          v_phi = G * mstar * msun * np_power rvals (Fin 2);
          v_phi = np_sqrt (v_phi * np_power (np_hypot rvals zvals) (Fin (- 3)))
      in proj_vphi v_phi tvals inc)"

definition proj_vkep ::
  "(fl \<times> fl \<times> fl) list list \<Rightarrow> fl \<Rightarrow> fl \<Rightarrow> fl \<Rightarrow> pyerr + fl list list" where
  "proj_vkep coords distance mstar inc =
     bind_err (load_global ''au'') (\<lambda>au.
     bind_err (load_global ''G'') (\<lambda>G.
     bind_err (load_global ''msun'') (\<lambda>msun.
       Inr (map (map (\<lambda>(r, t, z). proj_vkep_px au G msun r t z distance mstar inc)) coords))))"

text \<open>
  \<open>proj_vpow\<close> reads \<open>vr_q\<close> and \<open>vr_100\<close>, which are neither among its ten parameters
  nor assigned in its body: they are global names.
\<close>

definition proj_vpow ::
  "(fl \<times> fl \<times> fl) list list \<Rightarrow> fl \<Rightarrow> pyval \<Rightarrow> fl \<Rightarrow> fl \<Rightarrow> fl \<Rightarrow> fl \<Rightarrow> fl \<Rightarrow> pyerr + fl list list" where
  "proj_vpow coords distance mstar inc vp_q vp_100 vp_qtaper vp_rtaper =
     (let v_phi = map (map (\<lambda>(r, t, z).
            let v = np_power (r * distance / Fin 100) vp_q;
                v = v * np_exp (- np_power (r / vp_rtaper) vp_qtaper)
            in proj_vphi (vp_100 * v) t inc)) coords
      in bind_err (load_global ''vr_q'') (\<lambda>vr_q.
         bind_err (load_global ''vr_100'') (\<lambda>vr_100.
           Inr (map (\<lambda>(row, vrow). map (\<lambda>((r, t, z), v).
                  v + proj_vrad (vr_100 * np_power (r * distance / Fin 100) vr_q) t inc)
                  (zip row vrow)) (zip coords v_phi)))))"

section \<open>The rotation map (fit_cube.py)\<close>

text \<open>
  The fields of a \<open>rotationmap\<close> the modelled methods read. \<open>beam_convolve\<close> stands for
  \<open>_convolve_image (_, self._beamkernel ())\<close>, the convolution of an image with the beam
  by the external image library. The class-level dictionary \<open>rotationmap.priors\<close> is
  passed to the functions that read or change it.
\<close>

record rotationmap =
  xaxis :: "fl list"
  yaxis :: "fl list"
  data :: "fl list list"
  error :: "fl list list"
  ivar :: "fl list list"
  mask :: "bool list list"
  vlsr :: fl
  disk_coords_niter :: nat
  shadowed :: bool
  beam_convolve :: "fl list list \<Rightarrow> fl list list"

subsection \<open>Priors\<close>

type_synonym prior = "pyval \<Rightarrow> pyerr + fl"

text \<open>
  The two closures of \<open>set_prior\<close>, for \<open>args = [a0, a1]\<close>. \<open>min(args)\<close> and
  \<open>max(args)\<close> keep the first element unless the second is strictly smaller (larger).
\<close>

definition flat_prior :: "pynum \<Rightarrow> pynum \<Rightarrow> prior" where
  "flat_prior a0 a1 p =
     (case num_of p of
        None \<Rightarrow> Inl (TypeError ''<='')
      | Some q \<Rightarrow>
          let lo = (if pn a1 < pn a0 then pn a1 else pn a0);
              hi = (if pn a0 < pn a1 then pn a1 else pn a0)
          in if \<not> (lo \<le> pn q \<and> pn q \<le> hi) then Inr NInf
             else bind_err (py_truediv (PyNum (Fin 1)) (py_sub a1 a0)) (\<lambda>d.
                    Inr (np_log (pn d))))"

definition gaussian_prior :: "pynum \<Rightarrow> pynum \<Rightarrow> prior" where
  "gaussian_prior a0 a1 p =
     (case num_of p of
        None \<Rightarrow> Inl (TypeError ''-'')
      | Some q \<Rightarrow>
          bind_err (py_truediv (py_sub a0 q) a1) (\<lambda>d.
            let lnp = np_exp (Fin (- 0.5) * np_power (pn d) (Fin 2))
            in Inr (np_log (lnp / np_sqrt (Fin (2 * pi)) / pn a1))))"

definition set_prior ::
  "(string \<rightharpoonup> prior) \<Rightarrow> string \<Rightarrow> pynum \<times> pynum \<Rightarrow> string \<Rightarrow> pyerr + (string \<rightharpoonup> prior)" where
  "set_prior priors param args type =
     (let type = py_lower type
      in if type \<notin> set [''flat'', ''gaussian''] then Inl (ValueError ''type'')
         else if type = ''flat'' then Inr (priors(param \<mapsto> flat_prior (fst args) (snd args)))
         else Inr (priors(param \<mapsto> gaussian_prior (fst args) (snd args))))"

text \<open>\<open>ndarray.max()\<close>: \<open>NaN\<close> if any element is.\<close>

definition np_max :: "fl list \<Rightarrow> pyerr + fl" where
  "np_max xs =
     (case xs of
        [] \<Rightarrow> Inl (ValueError ''zero-size array'')
      | x # ys \<Rightarrow> Inr (if NaN \<in> set xs then NaN else fold (\<lambda>y m. if m < y then y else m) ys x))"

text \<open>
  \<open>_set_default_priors\<close>: twenty calls of \<open>set_prior\<close> with type \<open>'flat'\<close>, in the
  order of the source. The bounds are Python literals, but for \<open>vlsr\<close> (from the data)
  and \<open>w_r\<close> (from the axis).
\<close>

fun set_priors ::
  "(string \<times> pynum \<times> pynum) list \<Rightarrow> (string \<rightharpoonup> prior) \<Rightarrow> pyerr + (string \<rightharpoonup> prior)" where
  "set_priors [] priors = Inr priors"
| "set_priors ((param, args) # rest) priors =
     bind_err (set_prior priors param args ''flat'') (set_priors rest)"

definition default_priors_geometry :: "(string \<times> pynum \<times> pynum) list" where
  "default_priors_geometry =
     [(''x0'', PyNum (Fin (- 2)), PyNum (Fin 2)),
      (''y0'', PyNum (Fin (- 2)), PyNum (Fin 2)),
      (''inc'', PyNum (Fin (- 90)), PyNum (Fin 90)),
      (''PA'', PyNum (Fin (- 360)), PyNum (Fin 360)),
      (''mstar'', PyNum (Fin 0.1), PyNum (Fin 5))]"

definition default_priors_surface :: "(string \<times> pynum \<times> pynum) list" where
  "default_priors_surface =
     [(''z0'', PyNum (Fin 0), PyNum (Fin 5)),
      (''psi'', PyNum (Fin 0), PyNum (Fin 5)),
      (''r_cavity'', PyNum (Fin 0), PyNum (Fin (10 ^ 30))),
      (''r_taper'', PyNum (Fin 0), PyNum (Fin (10 ^ 30))),
      (''q_taper'', PyNum (Fin 0), PyNum (Fin 5)),
      (''w_i'', PyNum (Fin (- 90)), PyNum (Fin 90))]"

definition default_priors_velocity :: "(string \<times> pynum \<times> pynum) list" where
  "default_priors_velocity =
     [(''w_t'', PyNum (Fin (- 180)), PyNum (Fin 180)),
      (''vp_100'', PyNum (Fin 0), PyNum (Fin (10 ^ 4))),
      (''vp_q'', PyNum (Fin (- 2)), PyNum (Fin 0)),
      (''vp_rtaper'', PyNum (Fin 0), PyNum (Fin (10 ^ 30))),
      (''vp_qtaper'', PyNum (Fin 0), PyNum (Fin 5)),
      (''vr_100'', PyNum (Fin (- 1000)), PyNum (Fin 1000)),
      (''vr_q'', PyNum (Fin (- 2)), PyNum (Fin 2))]"

definition set_default_priors ::
  "rotationmap \<Rightarrow> (string \<rightharpoonup> prior) \<Rightarrow> pyerr + (string \<rightharpoonup> prior)" where
  "set_default_priors self priors =
     bind_err (set_priors default_priors_geometry priors) (\<lambda>pr.
     bind_err (np_nanmin (concat (data self))) (\<lambda>dmin.
     bind_err (np_nanmax (concat (data self))) (\<lambda>dmax.
     bind_err (set_prior pr ''vlsr'' (NpNum (dmin * Fin 1000), NpNum (dmax * Fin 1000)) ''flat'') (\<lambda>pr.
     bind_err (set_priors default_priors_surface pr) (\<lambda>pr.
     bind_err (np_max (xaxis self)) (\<lambda>xmax.
     bind_err (set_prior pr ''w_r'' (PyNum (Fin 0), NpNum xmax) ''flat'') (\<lambda>pr.
       set_priors default_priors_velocity pr)))))))"

subsection \<open>Disk coordinates\<close>

text \<open>\<open>inc = inc if inc < 90.0 else inc - 180.0\<close>.\<close>

definition inc_convention :: "fl \<Rightarrow> fl" where
  "inc_convention inc = (if inc < Fin 90 then inc else inc - Fin 180)"

text \<open>
  \<open>disk_coords\<close> is called as \<open>self.disk_coords (**params)\<close>: each argument is the entry
  of the dictionary under its name, or the default of the signature; entries under other
  names are ignored. \<open>kwarg\<close> is that binding, \<open>or_default\<close> is \<open>d if v is None else v\<close>.
\<close>

definition kwarg :: "pydict \<Rightarrow> string \<Rightarrow> pyval \<Rightarrow> pyval" where
  "kwarg kw k dflt = (case map_of kw k of None \<Rightarrow> dflt | Some v \<Rightarrow> v)"

definition or_default :: "pyval \<Rightarrow> pyval \<Rightarrow> pyval" where
  "or_default v dflt = (if v = PyNone then dflt else v)"

text \<open>
  An axis argument: \<open>None\<close> is the map's own axis; a number is an axis of one pixel.
  Arrays are no dictionary values of the model.
\<close>

definition axis_arg :: "pyval \<Rightarrow> fl list \<Rightarrow> pyerr + fl list" where
  "axis_arg v own =
     (if v = PyNone then Inr own
      else case num_of v of None \<Rightarrow> Inl (TypeError ''operand'') | Some q \<Rightarrow> Inr [pn q])"

text \<open>
  The part of \<open>disk_coords\<close> after the inclination convention, for the lowered frame and
  the inclination \<open>inc\<close> the convention returned. With \<open>self.shadowed\<close> set, the call
  \<open>self.get_shadowed_coords (x0, y0, inc, PA, z_func, w_func)\<close> reads the names \<open>z_func\<close>
  and \<open>w_func\<close>, which \<open>fit_cube.py\<close> does not define.
\<close>

definition disk_coords_body ::
  "rotationmap \<Rightarrow> pydict \<Rightarrow> string \<Rightarrow> fl \<Rightarrow> pyerr + (fl \<times> fl \<times> fl) list list" where
  "disk_coords_body self kw frame inc =
     (let r_taper = kwarg kw ''r_taper'' PyNone; q_taper = kwarg kw ''q_taper'' PyNone
      in if (r_taper \<noteq> PyNone) \<noteq> (q_taper \<noteq> PyNone) then Inl (ValueError ''r_taper and q_taper'')
         else
           let z0 = or_default (kwarg kw ''z0'' (PyFloat (Fin 0))) (PyFloat (Fin 0));
               psi = or_default (kwarg kw ''psi'' (PyFloat (Fin 0))) (PyFloat (Fin 1));
               r_cavity = or_default (kwarg kw ''r_cavity'' (PyFloat (Fin 0))) (PyFloat (Fin 0));
               r_taper = or_default r_taper (PyFloat PInf);
               q_taper = or_default q_taper (PyFloat (Fin 1))
           in if shadowed self then Inl (NameError ''z_func'')
              else
                bind_err (as_float (kwarg kw ''x0'' (PyFloat (Fin 0)))) (\<lambda>x0.
                bind_err (as_float (kwarg kw ''y0'' (PyFloat (Fin 0)))) (\<lambda>y0.
                bind_err (axis_arg (kwarg kw ''xaxis'' PyNone) (xaxis self)) (\<lambda>xs.
                bind_err (axis_arg (kwarg kw ''yaxis'' PyNone) (yaxis self)) (\<lambda>ys.
                bind_err (as_float (kwarg kw ''PA'' (PyFloat (Fin 0)))) (\<lambda>PA.
                bind_err (as_float z0) (\<lambda>z0.
                bind_err (as_float r_cavity) (\<lambda>r_cavity.
                bind_err (as_float r_taper) (\<lambda>r_taper.
                bind_err (as_float psi) (\<lambda>psi.
                bind_err (as_float q_taper) (\<lambda>q_taper.
                bind_err (as_float (kwarg kw ''w_r'' (PyFloat (Fin 1)))) (\<lambda>w_r.
                bind_err (as_float (kwarg kw ''w_i'' (PyFloat (Fin 0)))) (\<lambda>w_i.
                bind_err (as_float (kwarg kw ''w_t'' (PyFloat (Fin 0)))) (\<lambda>w_t.
                  let coords = get_flared_coords x0 y0 xs ys inc PA z0 r_cavity r_taper psi
                                 q_taper w_r w_i w_t (disk_coords_niter self)
                  in if frame = ''cylindrical'' then Inr coords
                     else Inr (map (map (\<lambda>(r, t, z). (r * np_cos t, r * np_sin t, z)))
                                 coords)))))))))))))))"

definition disk_coords :: "rotationmap \<Rightarrow> pydict \<Rightarrow> pyerr + (fl \<times> fl \<times> fl) list list" where
  "disk_coords self kw =
     (case kwarg kw ''frame'' (PyStr ''cylindrical'') of
        PyStr frame \<Rightarrow>
          let frame = py_lower frame
          in if frame \<notin> set [''cylindrical'', ''cartesian''] then Inl (ValueError ''frame'')
             else bind_err (as_float (kwarg kw ''inc'' (PyFloat (Fin 0)))) (\<lambda>inc.
                    disk_coords_body self kw frame (inc_convention inc))
      | _ \<Rightarrow> Inl (AttributeError ''lower''))"

subsection \<open>Parameter dictionaries\<close>

text \<open>
  \<open>_populate_dictionary\<close>: an entry that is an \<open>int\<close> and no \<open>bool\<close> is replaced by
  the element of \<open>theta\<close> at that index (a numpy scalar); the keys keep their places.
\<close>

fun populate_dictionary :: "fl list \<Rightarrow> pydict \<Rightarrow> pyerr + pydict" where
  "populate_dictionary theta [] = Inr []"
| "populate_dictionary theta ((key, PyInt i) # rest) =
     bind_err (py_index theta i) (\<lambda>x.
     bind_err (populate_dictionary theta rest) (\<lambda>rest'.
       Inr ((key, NpFloat x) # rest')))"
| "populate_dictionary theta ((key, v) # rest) =
     bind_err (populate_dictionary theta rest) (\<lambda>rest'.
       Inr ((key, v) # rest'))"

text \<open>
  \<open>verify_params_dictionary\<close>. A run of statements \<open>params[k] = params.pop(k, d)\<close> is
  the fold of \<open>pop_default\<close> over the table of its keys and defaults, in the order of the
  source. The defaults of \<open>w_r\<close>, \<open>v_min\<close> and \<open>v_max\<close> are computed from the map
  whether or not the key is given, and computing them can raise.
\<close>

definition fill_defaults :: "(string \<times> pyval) list \<Rightarrow> pydict \<Rightarrow> pydict" where
  "fill_defaults table d = fold (\<lambda>(k, dflt). pop_default k dflt) table d"

definition defaults_geometry :: "rotationmap \<Rightarrow> (string \<times> pyval) list" where
  "defaults_geometry self =
     [(''x0'', PyFloat (Fin 0)),
      (''y0'', PyFloat (Fin 0)),
      (''dist'', PyFloat (Fin 100)),
      (''vlsr'', NpFloat (vlsr self))]"

definition defaults_profile :: "(string \<times> pyval) list" where
  "defaults_profile =
     [(''vp_q'', PyFloat (Fin (- 0.5))),
      (''vp_rtaper'', PyFloat (Fin (10 ^ 10))),
      (''vp_qtaper'', PyFloat (Fin 1)),
      (''vr_100'', PyFloat (Fin 0)),
      (''vr_q'', PyFloat (Fin 0)),
      (''z0'', PyFloat (Fin 0)),
      (''psi'', PyFloat (Fin 1)),
      (''r_taper'', PyFloat (Fin (10 ^ 10))),
      (''q_taper'', PyFloat (Fin 1)),
      (''r_cavity'', PyFloat (Fin 0)),
      (''w_i'', PyFloat (Fin 0))]"

definition defaults_mask :: "(string \<times> pyval) list" where
  "defaults_mask =
     [(''w_t'', PyFloat (Fin 0)),
      (''shadowed'', PyBool False),
      (''r_min'', PyFloat (Fin 0)),
      (''r_max'', PyFloat (Fin (10 ^ 10))),
      (''exclude_r'', PyBool False),
      (''PA_min'', PyFloat (Fin (- pi))),
      (''PA_max'', PyFloat (Fin pi)),
      (''exclude_PA'', PyBool False),
      (''abs_PA'', PyBool False)]"

definition check_bounds :: "pydict \<Rightarrow> string \<Rightarrow> string \<Rightarrow> pyerr + unit" where
  "check_bounds d kmin kmax =
     bind_err (getitem d kmin) (\<lambda>lo.
     bind_err (getitem d kmax) (\<lambda>hi.
     bind_err (py_ge lo hi) (\<lambda>inverted.
       if inverted then Inl (ValueError kmax) else Inr ())))"

definition verify_params_dictionary :: "rotationmap \<Rightarrow> pydict \<Rightarrow> pyerr + pydict" where
  "verify_params_dictionary self params =
     (let params = fill_defaults (defaults_geometry self) params
      in if get_is_none params ''inc'' then Inl (KeyError ''inc'')
         else if get_is_none params ''PA'' then Inl (KeyError ''PA'')
         else
           let has_vp_100 = (if get_is_none params ''vp_100'' then False else True);
               has_mstar = (if get_is_none params ''mstar'' then False else True)
           in if has_mstar \<and> has_vp_100 then Inl (KeyError ''mstar and vp_100'')
              else if \<not> has_mstar \<and> \<not> has_vp_100 then Inl (KeyError ''mstar or vp_100'')
              else
                let params = AList.update ''vfunc''
                               (PyStr (if has_mstar then ''proj_vkep'' else ''proj_vpow'')) params;
                    params = fill_defaults defaults_profile params
                in bind_err (py_max (xaxis self)) (\<lambda>xmax.
                   let params = pop_default ''w_r'' (NpFloat (Fin 0.5 * xmax)) params;
                       params = fill_defaults defaults_mask params
                   in bind_err (np_nanmin (concat (data self))) (\<lambda>dmin.
                      let params = pop_default ''v_min'' (NpFloat dmin) params
                      in bind_err (np_nanmax (concat (data self))) (\<lambda>dmax.
                         let params = pop_default ''v_max'' (NpFloat dmax) params;
                             params = pop_default ''exclude_v'' (PyBool False) params
                         in bind_err (check_bounds params ''r_min'' ''r_max'') (\<lambda>_.
                            bind_err (check_bounds params ''PA_min'' ''PA_max'') (\<lambda>_.
                            bind_err (check_bounds params ''v_min'' ''v_max'') (\<lambda>_.
                              Inr (AList.update ''beam''
                                     (PyBool (py_bool (kwarg params ''beam'' (PyBool False))))
                                     (AList.delete ''beam'' params)))))))))"

subsection \<open>The model image\<close>

text \<open>
  \<open>vphi\<close>. The arguments of the call are read from the dictionary left to right; the
  compiled functions then want numbers (\<open>proj_vpow\<close> never uses its \<open>mstar\<close>).
\<close>

definition vphi :: "rotationmap \<Rightarrow> pydict \<Rightarrow> pyerr + fl list list" where
  "vphi self params =
     bind_err (disk_coords self params) (\<lambda>coords.
     bind_err (getitem params ''vfunc'') (\<lambda>vfunc.
     bind_err
       (if vfunc = PyStr ''proj_vkep'' then
          bind_err (getitem params ''dist'') (\<lambda>distance.
          bind_err (getitem params ''mstar'') (\<lambda>mstar.
          bind_err (getitem params ''inc'') (\<lambda>inc.
          bind_err (as_float distance) (\<lambda>distance.
          bind_err (as_float mstar) (\<lambda>mstar.
          bind_err (as_float inc) (\<lambda>inc.
            proj_vkep coords distance mstar inc))))))
        else
          bind_err (getitem params ''dist'') (\<lambda>distance.
          bind_err (getitem params ''mstar'') (\<lambda>mstar.
          bind_err (getitem params ''inc'') (\<lambda>inc.
          bind_err (getitem params ''vp_q'') (\<lambda>vp_q.
          bind_err (getitem params ''vp_100'') (\<lambda>vp_100.
          bind_err (getitem params ''vp_qtaper'') (\<lambda>vp_qtaper.
          bind_err (getitem params ''vp_rtaper'') (\<lambda>vp_rtaper.
          bind_err (as_float distance) (\<lambda>distance.
          bind_err (as_float inc) (\<lambda>inc.
          bind_err (as_float vp_q) (\<lambda>vp_q.
          bind_err (as_float vp_100) (\<lambda>vp_100.
          bind_err (as_float vp_qtaper) (\<lambda>vp_qtaper.
          bind_err (as_float vp_rtaper) (\<lambda>vp_rtaper.
            proj_vpow coords distance mstar inc vp_q vp_100 vp_qtaper vp_rtaper))))))))))))))
       (\<lambda>v_phi.
     bind_err (getitem params ''vlsr'') (\<lambda>v0.
     bind_err (as_float v0) (\<lambda>v0.
       Inr (map (map (\<lambda>v. v + v0)) v_phi))))))"

definition make_model :: "rotationmap \<Rightarrow> pydict \<Rightarrow> pyerr + fl list list" where
  "make_model self params =
     bind_err (vphi self params) (\<lambda>v_phi.
     bind_err (getitem params ''beam'') (\<lambda>beam.
       if py_bool beam then Inr (beam_convolve self v_phi) else Inr v_phi))"

subsection \<open>Likelihood, prior and probability\<close>

text \<open>
  \<open>np.where (mask, np.power (data - model, 2), 0.0)\<close> and \<open>np.sum\<close>. The three arrays
  have one shape (the row lengths); the model raises where they do not, and numpy's
  broadcasting of an array with a single row or column is not modelled.
\<close>

definition np_sum :: "fl list list \<Rightarrow> fl" where
  "np_sum a = foldl (+) (Fin 0) (concat a)"

definition where_sq :: "bool list list \<Rightarrow> fl list list \<Rightarrow> fl list list \<Rightarrow> fl list list" where
  "where_sq msk dat model =
     map (\<lambda>(mrow, drow, vrow).
            map (\<lambda>(m, d, v). if m then np_power (d - v) (Fin 2) else Fin 0)
              (zip mrow (zip drow vrow)))
       (zip msk (zip dat model))"

definition ln_likelihood :: "rotationmap \<Rightarrow> pydict \<Rightarrow> pyerr + fl" where
  "ln_likelihood self params =
     bind_err (make_model self params) (\<lambda>img.
       let model = map (map (\<lambda>v. v * Fin 0.001)) img
       in if map length model \<noteq> map length (data self)
             \<or> map length (mask self) \<noteq> map length (data self)
          then Inl (ValueError ''shape'')
          else
            let lnx2 = where_sq (mask self) (data self) model;
                lnx2 = Fin (- 0.5) * np_sum lnx2
            in Inr (if isfinite lnx2 then lnx2 else NInf))"

text \<open>
  \<open>_ln_prior\<close>: the loop over the keys of the populated dictionary, with the running sum.
\<close>

fun ln_prior_loop :: "(string \<rightharpoonup> prior) \<Rightarrow> pydict \<Rightarrow> fl \<Rightarrow> pyerr + fl" where
  "ln_prior_loop priors [] lnp = Inr lnp"
| "ln_prior_loop priors ((key, v) # rest) lnp =
     (case priors key of
        None \<Rightarrow> ln_prior_loop priors rest lnp
      | Some prior \<Rightarrow>
          bind_err (prior v) (\<lambda>term.
            let lnp = lnp + term
            in if \<not> isfinite lnp then Inr lnp else ln_prior_loop priors rest lnp))"

definition ln_prior :: "(string \<rightharpoonup> prior) \<Rightarrow> pydict \<Rightarrow> pyerr + fl" where
  "ln_prior priors params = ln_prior_loop priors params (Fin 0)"

text \<open>
  \<open>_ln_probability\<close>, for the likelihood function \<open>lnlike\<close> it calls; in the source that
  is \<open>self._ln_likelihood\<close>.
\<close>

definition ln_probability_with ::
  "(pydict \<Rightarrow> pyerr + fl) \<Rightarrow> (string \<rightharpoonup> prior) \<Rightarrow> fl list \<Rightarrow> pydict \<Rightarrow> pyerr + fl" where
  "ln_probability_with lnlike priors theta params_in =
     bind_err (populate_dictionary theta params_in) (\<lambda>model.
     bind_err (ln_prior priors model) (\<lambda>lnp.
       if isfinite lnp then bind_err (lnlike model) (\<lambda>l. Inr (lnp + l))
       else Inr NInf))"

definition ln_probability ::
  "rotationmap \<Rightarrow> (string \<rightharpoonup> prior) \<Rightarrow> fl list \<Rightarrow> pydict \<Rightarrow> pyerr + fl" where
  "ln_probability self priors theta params_in =
     ln_probability_with (ln_likelihood self) priors theta params_in"

subsection \<open>The table of defaults\<close>

text \<open>
  All keys \<open>verify_params_dictionary\<close> fills, each with its default, for a map whose axis
  maximum is \<open>xmax\<close> and whose data range from \<open>dmin\<close> to \<open>dmax\<close>.
\<close>

definition all_defaults :: "rotationmap \<Rightarrow> fl \<Rightarrow> fl \<Rightarrow> fl \<Rightarrow> (string \<times> pyval) list" where
  "all_defaults self xmax dmin dmax =
     defaults_geometry self @ defaults_profile @ [(''w_r'', NpFloat (Fin 0.5 * xmax))]
     @ defaults_mask
     @ [(''v_min'', NpFloat dmin), (''v_max'', NpFloat dmax), (''exclude_v'', PyBool False)]"

subsection \<open>A small map\<close>

text \<open>
  A map of two by two pixels with one blank pixel, for the concrete instances below:
  \<open>mask\<close> is \<open>np.isfinite (data)\<close> and \<open>vlsr\<close> is \<open>np.nanmedian (data)\<close>, as \<open>__init__\<close>
  sets them, and no beam is applied.
\<close>

definition example_map :: rotationmap where
  "example_map =
     \<lparr>xaxis = [Fin (- 1), Fin 1],
      yaxis = [Fin (- 1), Fin 1],
      data = [[Fin 1, Fin 2], [Fin 3, NaN]],
      error = [[Fin 0.1, Fin 0.1], [Fin 0.1, Fin 0]],
      ivar = [[Fin 100, Fin 100], [Fin 100, Fin 0]],
      mask = [[True, True], [True, False]],
      vlsr = Fin 2,
      disk_coords_niter = 5,
      shadowed = False,
      beam_convolve = (\<lambda>img. img)\<rparr>"

text \<open>
  A Keplerian parameter dictionary for that map, with the entries \<open>_make_model\<close> reads,
  and the image \<open>_make_model\<close> returns for it.
\<close>

definition kepler_params :: pydict where
  "kepler_params =
     [(''inc'', PyFloat (Fin 30)), (''PA'', PyFloat (Fin 45)), (''mstar'', PyFloat (Fin 1)),
      (''dist'', PyFloat (Fin 100)), (''vlsr'', PyFloat (Fin 2000)),
      (''vfunc'', PyStr ''proj_vkep''), (''beam'', PyBool False)]"

definition kepler_image :: "fl list list" where
  "kepler_image =
     map (map (\<lambda>v. v + Fin 2000))
       (map (map (\<lambda>(r, t, z). proj_vkep_px (Fin 149597870700) (Fin (66743 / 10 ^ 15))
                    (Fin (1988 * 10 ^ 27)) r t z (Fin 100) (Fin 1) (Fin 30)))
          (get_flared_coords (Fin 0) (Fin 0) [Fin (- 1), Fin 1] [Fin (- 1), Fin 1] (Fin 30)
             (Fin 45) (Fin 0) (Fin 0) PInf (Fin 0) (Fin 1) (Fin 1) (Fin 0) (Fin 0) 5))"

text \<open>
  The prior registry after \<open>_set_default_priors\<close> on that map, a parameter specification
  with two free parameters (\<open>inc\<close> at index 0 and \<open>mstar\<close> at index 1), the dictionary it
  is populated to, and a specification that fixes \<open>mstar\<close> at 10 solar masses, outside the
  default prior \<open>[0.1, 5]\<close>.
\<close>

definition example_priors :: "string \<rightharpoonup> prior" where
  "example_priors =
     (case set_default_priors example_map Map.empty of Inl e \<Rightarrow> Map.empty | Inr priors \<Rightarrow> priors)"

definition kepler_spec :: pydict where
  "kepler_spec =
     [(''inc'', PyInt 0), (''PA'', PyFloat (Fin 45)), (''mstar'', PyInt 1),
      (''dist'', PyFloat (Fin 100)), (''vlsr'', PyFloat (Fin 2000)),
      (''vfunc'', PyStr ''proj_vkep''), (''beam'', PyBool False)]"

definition kepler_model :: "fl \<Rightarrow> fl \<Rightarrow> pydict" where
  "kepler_model i m =
     [(''inc'', NpFloat i), (''PA'', PyFloat (Fin 45)), (''mstar'', NpFloat m),
      (''dist'', PyFloat (Fin 100)), (''vlsr'', PyFloat (Fin 2000)),
      (''vfunc'', PyStr ''proj_vkep''), (''beam'', PyBool False)]"

definition fixed_mstar_spec :: pydict where
  "fixed_mstar_spec =
     [(''inc'', PyInt 0), (''PA'', PyFloat (Fin 45)), (''mstar'', PyFloat (Fin 10)),
      (''dist'', PyFloat (Fin 100)), (''vlsr'', PyFloat (Fin 2000)),
      (''vfunc'', PyStr ''proj_vkep''), (''beam'', PyBool False)]"

text \<open>
  A power-law specification for that map, with \<open>vp_100\<close> and without \<open>mstar\<close>, and the
  dictionary \<open>verify_params_dictionary\<close> returns for it, in the order in which the
  function inserts the keys.
\<close>

definition powerlaw_spec :: pydict where
  "powerlaw_spec =
     [(''inc'', PyFloat (Fin 30)), (''PA'', PyFloat (Fin 45)), (''vp_100'', PyFloat (Fin 1000))]"

definition powerlaw_params :: pydict where
  "powerlaw_params =
     [(''inc'', PyFloat (Fin 30)), (''PA'', PyFloat (Fin 45)), (''vp_100'', PyFloat (Fin 1000)),
      (''x0'', PyFloat (Fin 0)), (''y0'', PyFloat (Fin 0)), (''dist'', PyFloat (Fin 100)),
      (''vlsr'', NpFloat (Fin 2)), (''vfunc'', PyStr ''proj_vpow''),
      (''vp_q'', PyFloat (Fin (- 0.5))), (''vp_rtaper'', PyFloat (Fin (10 ^ 10))),
      (''vp_qtaper'', PyFloat (Fin 1)), (''vr_100'', PyFloat (Fin 0)), (''vr_q'', PyFloat (Fin 0)),
      (''z0'', PyFloat (Fin 0)), (''psi'', PyFloat (Fin 1)), (''r_taper'', PyFloat (Fin (10 ^ 10))),
      (''q_taper'', PyFloat (Fin 1)), (''r_cavity'', PyFloat (Fin 0)), (''w_i'', PyFloat (Fin 0)),
      (''w_r'', NpFloat (Fin 0.5)), (''w_t'', PyFloat (Fin 0)), (''shadowed'', PyBool False),
      (''r_min'', PyFloat (Fin 0)), (''r_max'', PyFloat (Fin (10 ^ 10))),
      (''exclude_r'', PyBool False), (''PA_min'', PyFloat (Fin (- pi))),
      (''PA_max'', PyFloat (Fin pi)), (''exclude_PA'', PyBool False), (''abs_PA'', PyBool False),
      (''v_min'', NpFloat (Fin 1)), (''v_max'', NpFloat (Fin 3)), (''exclude_v'', PyBool False),
      (''beam'', PyBool False)]"

section \<open>Basic facts\<close>

lemma bind_err_simps [simp]:
  "bind_err (Inl e) f = Inl e"
  "bind_err (Inr x) f = f x"
  by (simp_all add: bind_err_def)

lemma fl_le_Fin [simp]: "(Fin a \<le> Fin b) = (a \<le> b)"
  by (auto simp: less_eq_fl_def)

lemma fl_le_special [simp]:
  "\<not> NaN \<le> x" "\<not> x \<le> NaN" "NInf \<le> Fin a" "Fin a \<le> PInf" "\<not> Fin a \<le> NInf"
  "\<not> PInf \<le> Fin a" "NInf \<le> NInf" "PInf \<le> PInf" "NInf \<le> PInf" "\<not> PInf \<le> NInf"
  by (cases x; simp add: less_eq_fl_def)+

lemma fl_minus_Fin [simp]: "Fin a - Fin b = Fin (a - b)"
  by (simp add: minus_fl_def)

lemma py_lower_cylindrical: "py_lower ''cylindrical'' = ''cylindrical''"
  by (simp add: py_lower_def lower_char_def)

lemma py_lower_flat: "py_lower ''flat'' = ''flat''"
  by (simp add: py_lower_def lower_char_def)

section \<open>Rotation of the sky coordinates\<close>

lemma rotate_coords_Fin:
  "rotate_coords (Fin x) (Fin y) (Fin PA) =
     (Fin (y * cos (PA * (pi / 180)) + x * sin (PA * (pi / 180))),
      Fin (x * cos (PA * (pi / 180)) - y * sin (PA * (pi / 180))))"
  by (simp add: rotate_coords_def np_radians_def)

lemma reflect_x:
  fixes c s x y :: real
  assumes "c * c + s * s = 1"
  shows "(x * c - y * s) * c + (y * c + x * s) * s = x"
proof -
  have "(x * c - y * s) * c + (y * c + x * s) * s = x * (c * c + s * s)"
    by (simp add: algebra_simps)
  with assms show ?thesis by simp
qed

lemma reflect_y:
  fixes c s x y :: real
  assumes "c * c + s * s = 1"
  shows "(y * c + x * s) * c - (x * c - y * s) * s = y"
proof -
  have "(y * c + x * s) * c - (x * c - y * s) * s = y * (c * c + s * s)"
    by (simp add: algebra_simps)
  with assms show ?thesis by simp
qed

lemma cos_sin_unit: "cos (a::real) * cos a + sin a * sin a = 1"
  using sin_cos_squared_add2 [of a] by (simp add: power2_eq_square)

text \<open>
  C6, as the claim states it, fails: \<open>rotate_coords\<close> with \<open>PA\<close> and then with \<open>- PA\<close> does
  not give the point back. At \<open>(x, y) = (1, 0)\<close> and \<open>PA = 90\<close> the first call returns
  \<open>(1, 0)\<close> and the second, with \<open>- 90\<close>, returns \<open>(- 1, 0)\<close>.
\<close>

theorem rotate_coords_neg_PA_counterexample:
  "rotate_coords (fst (rotate_coords (Fin 1) (Fin 0) (Fin 90)))
     (snd (rotate_coords (Fin 1) (Fin 0) (Fin 90))) (Fin (- 90)) = (Fin (- 1), Fin 0)
   \<and> rotate_coords (fst (rotate_coords (Fin 1) (Fin 0) (Fin 90)))
     (snd (rotate_coords (Fin 1) (Fin 0) (Fin 90))) (Fin (- 90)) \<noteq> (Fin 1, Fin 0)"
  by (simp add: rotate_coords_Fin)

text \<open>
  C6, amended: \<open>rotate_coords\<close> is a reflection (its matrix is symmetric, so it is its own
  transpose), and the round trip holds with the same angle: for all finite \<open>x\<close>, \<open>y\<close> and
  \<open>PA\<close>, applying \<open>rotate_coords\<close> with \<open>PA\<close> twice returns \<open>(x, y)\<close>.
\<close>

theorem rotate_coords_involution:
  "rotate_coords (fst (rotate_coords (Fin x) (Fin y) (Fin PA)))
     (snd (rotate_coords (Fin x) (Fin y) (Fin PA))) (Fin PA) = (Fin x, Fin y)"
  by (simp only: rotate_coords_Fin fst_conv snd_conv
        reflect_x [OF cos_sin_unit] reflect_y [OF cos_sin_unit])

section \<open>The inclination convention\<close>

text \<open>
  C2, as the claim states it, fails: the inclination \<open>disk_coords\<close> uses is not always in
  \<open>(-90, 90]\<close>. The input 90 is mapped to \<open>- 90\<close>, and the input \<open>- 100\<close> is kept.
\<close>

theorem inc_convention_counterexample:
  "\<not> (Fin (- 90) < inc_convention (Fin 90) \<and> inc_convention (Fin 90) \<le> Fin 90)
   \<and> \<not> (Fin (- 90) < inc_convention (Fin (- 100)) \<and> inc_convention (Fin (- 100)) \<le> Fin 90)"
  by (simp add: inc_convention_def)

text \<open>
  C2, amended: \<open>disk_coords\<close> deprojects with \<open>inc_convention inc\<close>, which is \<open>inc - 180\<close>
  for every input of at least 90 degrees and \<open>inc\<close> itself below 90; for an input in
  \<open>[-90, 270)\<close> the value used lies in \<open>[-90, 90)\<close>.
\<close>

theorem disk_coords_inc_convention:
  assumes "map_of kw ''frame'' = None" and "map_of kw ''inc'' = Some (PyFloat (Fin i))"
  shows "disk_coords self kw = disk_coords_body self kw ''cylindrical'' (inc_convention (Fin i))
    \<and> (90 \<le> i \<longrightarrow> inc_convention (Fin i) = Fin (i - 180))
    \<and> (i < 90 \<longrightarrow> inc_convention (Fin i) = Fin i)
    \<and> (- 90 \<le> i \<and> i < 270 \<longrightarrow>
         Fin (- 90) \<le> inc_convention (Fin i) \<and> inc_convention (Fin i) < Fin 90)"
  using assms
  by (simp add: disk_coords_def kwarg_def py_lower_cylindrical as_float_def inc_convention_def)

theorem disk_coords_inc_convention_witness:
  "disk_coords example_map [(''inc'', PyFloat (Fin 100))] =
     disk_coords_body example_map [(''inc'', PyFloat (Fin 100))] ''cylindrical'' (Fin (- 80))
   \<and> Fin (- 90) \<le> inc_convention (Fin 100) \<and> inc_convention (Fin 100) < Fin 90"
  using disk_coords_inc_convention [of "[(''inc'', PyFloat (Fin 100))]" 100 example_map]
  by simp

section \<open>The flared surface\<close>

lemma isfinite_iff: "isfinite a = (\<exists>x. a = Fin x)"
  by (cases a) simp_all

lemma isfinite_add: "isfinite a \<Longrightarrow> isfinite b \<Longrightarrow> isfinite (a + b)"
  by (auto simp: isfinite_iff)

lemma zero_times_cases: "Fin 0 * a = Fin 0 \<or> Fin 0 * a = NaN"
  by (cases a) simp_all

lemma times_zero_cases: "a * Fin 0 = Fin 0 \<or> a * Fin 0 = NaN"
  by (cases a) simp_all

lemma np_maximum_Fin: "np_maximum (Fin a) (Fin b) = Fin (max a b)"
  by (simp add: max_def)

lemma np_power_2: "np_power a (Fin 2) = a * a"
proof (cases a)
  case (Fin x)
  have "0 < x \<Longrightarrow> x powr 2 = x * x"
    by (simp add: powr_numeral power2_eq_square)
  moreover have "x < 0 \<Longrightarrow> (- x) powr 2 = x * x"
    by (simp add: powr_numeral power2_eq_square)
  ultimately show ?thesis using Fin
    by (auto simp: pow_real_def)
qed simp_all

lemma pow_real_finite: "0 \<le> x \<Longrightarrow> 0 \<le> p \<Longrightarrow> isfinite (pow_real x p)"
  by (auto simp: pow_real_def)

lemma z_func_z0_zero:
  "z_func r (Fin 0) r_cavity r_taper psi q_taper = Fin 0 \<or>
   z_func r (Fin 0) r_cavity r_taper psi q_taper = NaN"
proof -
  let ?A = "np_power (np_maximum (r - r_cavity) (Fin 0)) psi"
  let ?B = "np_exp (- np_power (np_maximum (r - r_cavity) (Fin 0) / r_taper) q_taper)"
  have "Fin 0 * ?A = Fin 0 \<or> Fin 0 * ?A = NaN" by (rule zero_times_cases)
  then have "Fin 0 * ?A * ?B = Fin 0 \<or> Fin 0 * ?A * ?B = NaN"
    using zero_times_cases [of ?B] by auto
  then show ?thesis
    by (auto simp: z_func_def Let_def)
qed

lemma w_func_wi_zero:
  "w_func r t r_cavity w_r (Fin 0) w_t = Fin 0 \<or> w_func r t r_cavity w_r (Fin 0) w_t = NaN"
proof -
  let ?r = "np_maximum (r - r_cavity) (Fin 0)"
  let ?E = "np_exp (Fin (- 0.5) * np_power (?r / w_r) (Fin 2))"
  let ?S = "np_sin (t - np_radians w_t)"
  let ?T = "np_tan (np_radians (Fin 0) * ?E * ?S)"
  have "np_radians (Fin 0) * ?E = Fin 0 \<or> np_radians (Fin 0) * ?E = NaN"
    using zero_times_cases [of ?E] by (simp add: np_radians_def)
  then have "np_radians (Fin 0) * ?E * ?S = Fin 0 \<or> np_radians (Fin 0) * ?E * ?S = NaN"
    using zero_times_cases [of ?S] by auto
  then have "?T = Fin 0 \<or> ?T = NaN"
    by auto
  then have "?r * ?T = Fin 0 \<or> ?r * ?T = NaN"
    using times_zero_cases [of ?r] by (cases ?r) auto
  then show ?thesis
    by (simp add: w_func_def Let_def)
qed

lemma z_func_finite:
  assumes "0 \<le> ps" and "0 \<le> q" and "0 < rt"
  shows "isfinite (z_func (Fin r) (Fin z) (Fin rc) (Fin rt) (Fin ps) (Fin q))"
proof -
  let ?r = "max (r - rc) 0"
  obtain a where a: "pow_real ?r ps = Fin a"
    using pow_real_finite [of ?r ps] assms(1) by (auto simp: isfinite_iff)
  have "0 \<le> ?r / rt" using assms(3) by simp
  then obtain b where b: "pow_real (?r / rt) q = Fin b"
    using pow_real_finite [of "?r / rt" q] assms(2) by (auto simp: isfinite_iff)
  have m: "np_maximum (Fin r - Fin rc) (Fin 0) = Fin ?r"
    by (simp add: max_def)
  have d: "Fin ?r / Fin rt = Fin (?r / rt)"
    using assms(3) by simp
  show ?thesis
    unfolding z_func_def Let_def m d np_power.simps a b
    by (simp add: max_def)
qed

lemma w_func_finite:
  assumes "wr \<noteq> 0"
  shows "isfinite (w_func (Fin r) (Fin t) (Fin rc) (Fin wr) (Fin wi) (Fin wt))"
proof -
  have m: "np_maximum (Fin r - Fin rc) (Fin 0) = Fin (max (r - rc) 0)"
    by (simp add: max_def)
  show ?thesis
    unfolding w_func_def Let_def m np_power_2
    using assms by (simp add: np_radians_def)
qed

lemma np_hypot_commute: "np_hypot a b = np_hypot b a"
  by (cases a; cases b) (simp_all add: add.commute)

lemma flared_step_fixed:
  assumes "np_hypot x_mid y_mid = r0" and "np_arctan2 y_mid x_mid = t0"
    and "y_mid + (z_func r0 z0 r_cavity r_taper psi q_taper + w_func r0 t0 r_cavity w_r w_i w_t)
                 * np_tan (np_radians inc) = y_mid"
  shows "flared_step x_mid y_mid inc z0 r_cavity r_taper psi q_taper w_r w_i w_t (r0, t0) = (r0, t0)"
  using assms by (simp add: flared_step_def Let_def np_hypot_commute [of y_mid x_mid])

lemma flared_loop_fixed:
  assumes "flared_step x_mid y_mid inc z0 r_cavity r_taper psi q_taper w_r w_i w_t rt = rt"
  shows "flared_loop n x_mid y_mid inc z0 r_cavity r_taper psi q_taper w_r w_i w_t rt = rt"
  using assms by (induction n) simp_all

lemma flared_px_fixed:
  assumes "np_hypot x_mid y_mid = r0" and "np_arctan2 y_mid x_mid = t0"
    and "y_mid + (z_func r0 z0 r_cavity r_taper psi q_taper + w_func r0 t0 r_cavity w_r w_i w_t)
                 * np_tan (np_radians inc) = y_mid"
  shows "get_flared_coords_px x_mid y_mid inc z0 r_cavity r_taper psi q_taper w_r w_i w_t niter
         = (r0, t0, z_func r0 z0 r_cavity r_taper psi q_taper)"
  using flared_loop_fixed [OF flared_step_fixed [OF assms], of niter] assms(1,2)
  by (simp add: get_flared_coords_px_def Let_def)

lemma hypot_rotated:
  fixes c s x y :: real
  assumes "c * c + s * s = 1"
  shows "(y * c + x * s) * (y * c + x * s) + (x * c - y * s) * (x * c - y * s) = x * x + y * y"
proof -
  have "(y * c + x * s) * (y * c + x * s) + (x * c - y * s) * (x * c - y * s)
        = (x * x + y * y) * (c * c + s * s)"
    by (simp add: algebra_simps)
  with assms show ?thesis by simp
qed

lemma midplane_px_face_on:
  "midplane_px (Fin 0) (Fin PA) (Fin x, Fin y) = rotate_coords (Fin x) (Fin y) (Fin PA)"
  by (simp add: midplane_px_def deproject_coords_def np_radians_def rotate_coords_def Let_def)

lemma get_flared_coords_nth:
  assumes "i < length ys" and "j < length xs"
  shows "get_flared_coords x0 y0 xs ys inc PA z0 r_cavity r_taper psi q_taper w_r w_i w_t niter ! i ! j
         = get_flared_coords_px (fst (midplane_px inc PA (xs ! j - x0, ys ! i - y0)))
             (snd (midplane_px inc PA (xs ! j - x0, ys ! i - y0)))
             inc z0 r_cavity r_taper psi q_taper w_r w_i w_t niter"
  using assms
  by (simp add: get_flared_coords_def get_midplane_cart_coords_def get_cart_sky_coords_def)

lemma face_on_px:
  assumes "rotate_coords (Fin x) (Fin y) (Fin PA) = (Fin xr, Fin yr)"
    and "isfinite (z_func (np_hypot (Fin x) (Fin y)) z0 r_cavity r_taper psi q_taper
                   + w_func (np_hypot (Fin x) (Fin y)) (np_arctan2 (Fin yr) (Fin xr)) r_cavity w_r w_i w_t)"
  shows "get_flared_coords_px (Fin xr) (Fin yr) (Fin 0) z0 r_cavity r_taper psi q_taper
           w_r w_i w_t niter
         = (np_hypot (Fin x) (Fin y), np_arctan2 (Fin yr) (Fin xr),
            z_func (np_hypot (Fin x) (Fin y)) z0 r_cavity r_taper psi q_taper)"
proof -
  have xr: "xr = y * cos (PA * (pi / 180)) + x * sin (PA * (pi / 180))"
    and yr: "yr = x * cos (PA * (pi / 180)) - y * sin (PA * (pi / 180))"
    using assms(1) by (simp_all add: rotate_coords_Fin)
  have r: "np_hypot (Fin xr) (Fin yr) = np_hypot (Fin x) (Fin y)"
    by (simp add: xr yr hypot_rotated [OF cos_sin_unit])
  obtain z where z: "z_func (np_hypot (Fin x) (Fin y)) z0 r_cavity r_taper psi q_taper
                   + w_func (np_hypot (Fin x) (Fin y)) (np_arctan2 (Fin yr) (Fin xr)) r_cavity w_r w_i w_t = Fin z"
    using assms(2) by (auto simp: isfinite_iff)
  have "Fin yr + (z_func (np_hypot (Fin x) (Fin y)) z0 r_cavity r_taper psi q_taper
                   + w_func (np_hypot (Fin x) (Fin y)) (np_arctan2 (Fin yr) (Fin xr)) r_cavity w_r w_i w_t)
                 * np_tan (np_radians (Fin 0)) = Fin yr"
    by (simp only: z) (simp add: np_radians_def)
  from flared_px_fixed [OF r refl this] show ?thesis .
qed

lemma warp_pos: "0 < tan (pi / 4 * exp (- (1 / 2)))"
proof -
  have e: "exp (- (1 / 2) :: real) < 1" by simp
  have "pi / 4 * exp (- (1 / 2)) < pi / 4 * 1"
    using e pi_gt_zero by (intro mult_strict_left_mono) auto
  also have "\<dots> < pi / 2" using pi_gt_zero by simp
  finally have "pi / 4 * exp (- (1 / 2)) < pi / 2" .
  moreover have "0 < pi / 4 * exp (- (1 / 2))" by simp
  ultimately show ?thesis by (rule tan_gt_zero [rotated])
qed

lemma atan2_1_0: "atan2 1 0 = pi / 2"
  by (simp add: atan2_def)

text \<open>
  C7, as the claim states it, fails: with \<open>z0 = 0\<close> and a warp the solver leaves the
  flat-disk values. At \<open>x_mid = 0\<close>, \<open>y_mid = 1\<close>, \<open>inc = 45\<close>, \<open>r_cavity = 0\<close>,
  \<open>r_taper = psi = q_taper = w_r = 1\<close>, \<open>w_i = 45\<close> and \<open>w_t = 0\<close> the flat-disk radius
  is 1, and after one iteration the radius is \<open>1 + tan (pi / 4 * exp (- 1 / 2))\<close>, about
  1.52.
\<close>

theorem flared_coords_warp_counterexample:
  "fst (get_flared_coords_px (Fin 0) (Fin 1) (Fin 45) (Fin 0) (Fin 0) (Fin 1) (Fin 1) (Fin 1)
          (Fin 1) (Fin 45) (Fin 0) 1) = Fin (1 + tan (pi / 4 * exp (- (1 / 2))))
   \<and> fst (get_flared_coords_px (Fin 0) (Fin 1) (Fin 45) (Fin 0) (Fin 0) (Fin 1) (Fin 1) (Fin 1)
          (Fin 1) (Fin 45) (Fin 0) 0) = Fin 1
   \<and> fst (get_flared_coords_px (Fin 0) (Fin 1) (Fin 45) (Fin 0) (Fin 0) (Fin 1) (Fin 1) (Fin 1)
          (Fin 1) (Fin 45) (Fin 0) 1)
       \<noteq> fst (get_flared_coords_px (Fin 0) (Fin 1) (Fin 45) (Fin 0) (Fin 0) (Fin 1) (Fin 1) (Fin 1)
          (Fin 1) (Fin 45) (Fin 0) 0)"
  using warp_pos
  by (simp add: get_flared_coords_px_def flared_step_def z_func_def w_func_def Let_def
        np_radians_def pow_real_def atan2_1_0 tan_45)

text \<open>
  C7, amended: with \<open>z0 = 0\<close> and no warp (\<open>w_i = 0\<close>), for finite midplane coordinates and
  inclination and for all other parameters at which the two surface terms \<open>z_func\<close> and
  \<open>w_func\<close> are finite at the flat-disk radius and azimuth (\<open>z_func_finite\<close> and
  \<open>w_func_finite\<close> give parameters for which they are), the solver returns the flat-disk
  radius and azimuth, and height 0, for every iteration count.
\<close>

theorem flared_coords_flat_fixed_point:
  assumes "isfinite (z_func (np_hypot (Fin xm) (Fin ym)) (Fin 0) r_cavity r_taper psi q_taper)"
    and "isfinite (w_func (np_hypot (Fin xm) (Fin ym)) (np_arctan2 (Fin ym) (Fin xm))
                     r_cavity w_r (Fin 0) w_t)"
  shows "get_flared_coords_px (Fin xm) (Fin ym) (Fin inc) (Fin 0) r_cavity r_taper psi q_taper
           w_r (Fin 0) w_t niter
         = (np_hypot (Fin xm) (Fin ym), np_arctan2 (Fin ym) (Fin xm), Fin 0)"
proof -
  define r0 where "r0 = np_hypot (Fin xm) (Fin ym)"
  define t0 where "t0 = np_arctan2 (Fin ym) (Fin xm)"
  have z: "z_func r0 (Fin 0) r_cavity r_taper psi q_taper = Fin 0"
    using assms(1) z_func_z0_zero [of r0 r_cavity r_taper psi q_taper]
    unfolding r0_def by auto
  have w: "w_func r0 t0 r_cavity w_r (Fin 0) w_t = Fin 0"
    using assms(2) w_func_wi_zero [of r0 t0 r_cavity w_r w_t]
    unfolding r0_def t0_def by auto
  have "Fin ym + (z_func r0 (Fin 0) r_cavity r_taper psi q_taper
                  + w_func r0 t0 r_cavity w_r (Fin 0) w_t) * np_tan (np_radians (Fin inc)) = Fin ym"
    by (simp add: z w np_radians_def)
  from flared_px_fixed [OF r0_def [symmetric] t0_def [symmetric] this, of niter]
  have "get_flared_coords_px (Fin xm) (Fin ym) (Fin inc) (Fin 0) r_cavity r_taper psi q_taper
          w_r (Fin 0) w_t niter = (r0, t0, Fin 0)"
    by (simp only: z)
  then show ?thesis by (simp only: r0_def t0_def)
qed

theorem flared_coords_flat_fixed_point_witness:
  "get_flared_coords_px (Fin 1) (Fin 2) (Fin 30) (Fin 0) (Fin 0) (Fin (10 ^ 10)) (Fin 1) (Fin 1)
     (Fin 1) (Fin 0) (Fin 0) 5
   = (np_hypot (Fin 1) (Fin 2), np_arctan2 (Fin 2) (Fin 1), Fin 0)"
proof -
  have z: "isfinite (z_func (np_hypot (Fin 1) (Fin 2)) (Fin 0) (Fin 0) (Fin (10 ^ 10)) (Fin 1) (Fin 1))"
    using z_func_finite [of 1 1 "10 ^ 10" "sqrt (1 * 1 + 2 * 2)" 0 0] by simp
  have w: "isfinite (w_func (np_hypot (Fin 1) (Fin 2)) (np_arctan2 (Fin 2) (Fin 1))
                      (Fin 0) (Fin 1) (Fin 0) (Fin 0))"
    using w_func_finite [of 1 "sqrt (1 * 1 + 2 * 2)" "atan2 2 1" 0 0 0] by simp
  show ?thesis by (rule flared_coords_flat_fixed_point [OF z w])
qed

text \<open>
  C8, as the claim states it, fails in the azimuth: at inclination 0 the azimuth is the
  angle of the coordinates after \<open>rotate_coords\<close>, not \<open>atan2 (y, x)\<close> of the recentred sky
  coordinates. For the pixel \<open>(x, y) = (1, 0)\<close> with \<open>x0 = y0 = 0\<close>, \<open>PA = 0\<close> and a flat
  surface, the azimuth is \<open>pi / 2\<close> and \<open>atan2 (0, 1)\<close> is 0.
\<close>

theorem flared_coords_azimuth_counterexample:
  "fst (snd (get_flared_coords (Fin 0) (Fin 0) [Fin 1] [Fin 0] (Fin 0) (Fin 0) (Fin 0) (Fin 0)
               (Fin 1) (Fin 1) (Fin 1) (Fin 1) (Fin 0) (Fin 0) 5 ! 0 ! 0)) = Fin (pi / 2)
   \<and> np_arctan2 (Fin 0 - Fin 0) (Fin 1 - Fin 0) = Fin 0
   \<and> fst (snd (get_flared_coords (Fin 0) (Fin 0) [Fin 1] [Fin 0] (Fin 0) (Fin 0) (Fin 0) (Fin 0)
               (Fin 1) (Fin 1) (Fin 1) (Fin 1) (Fin 0) (Fin 0) 5 ! 0 ! 0))
       \<noteq> np_arctan2 (Fin 0 - Fin 0) (Fin 1 - Fin 0)"
proof -
  have rot: "rotate_coords (Fin 1) (Fin 0) (Fin 0) = (Fin 0, Fin 1)"
    by (simp add: rotate_coords_Fin)
  have z: "isfinite (z_func (np_hypot (Fin 1) (Fin 0)) (Fin 0) (Fin 0) (Fin 1) (Fin 1) (Fin 1))"
    using z_func_finite [of 1 1 1 "sqrt (1 * 1 + 0 * 0)" 0 0] by simp
  have w: "isfinite (w_func (np_hypot (Fin 1) (Fin 0)) (np_arctan2 (Fin 1) (Fin 0))
                       (Fin 0) (Fin 1) (Fin 0) (Fin 0))"
    using w_func_finite [of 1 "sqrt (1 * 1 + 0 * 0)" "atan2 1 0" 0 0 0] by simp
  have px: "get_flared_coords_px (Fin 0) (Fin 1) (Fin 0) (Fin 0) (Fin 0) (Fin 1) (Fin 1) (Fin 1)
              (Fin 1) (Fin 0) (Fin 0) 5
            = (np_hypot (Fin 1) (Fin 0), np_arctan2 (Fin 1) (Fin 0),
               z_func (np_hypot (Fin 1) (Fin 0)) (Fin 0) (Fin 0) (Fin 1) (Fin 1) (Fin 1))"
    by (rule face_on_px [OF rot isfinite_add [OF z w]])
  have mid: "midplane_px (Fin 0) (Fin 0) (Fin 1 - Fin 0, Fin 0 - Fin 0) = (Fin 0, Fin 1)"
    using rot by (simp add: midplane_px_face_on)
  have "get_flared_coords (Fin 0) (Fin 0) [Fin 1] [Fin 0] (Fin 0) (Fin 0) (Fin 0) (Fin 0)
               (Fin 1) (Fin 1) (Fin 1) (Fin 1) (Fin 0) (Fin 0) 5 ! 0 ! 0
        = (np_hypot (Fin 1) (Fin 0), np_arctan2 (Fin 1) (Fin 0),
               z_func (np_hypot (Fin 1) (Fin 0)) (Fin 0) (Fin 0) (Fin 1) (Fin 1) (Fin 1))"
    by (simp only: get_flared_coords_nth [of 0 "[Fin 0]" 0 "[Fin 1]", simplified] mid fst_conv snd_conv px)
  then show ?thesis
    by (simp add: atan2_def)
qed

text \<open>
  C8, amended: at inclination 0, for finite pixel coordinates, centre and position angle,
  and for all surface parameters at which the height \<open>z_func + w_func\<close> is finite at the
  pixel, the radius of the pixel \<open>(x, y)\<close> is the hypot of the recentred sky coordinates
  \<open>(x - x0, y - y0)\<close>, and its azimuth is \<open>arctan2 (y_rot, x_rot)\<close> of those coordinates
  after \<open>rotate_coords\<close> with \<open>PA\<close>, that is
  \<open>x_rot = (y - y0) cos PA + (x - x0) sin PA\<close> and
  \<open>y_rot = (x - x0) cos PA - (y - y0) sin PA\<close>; both for every iteration count.
\<close>

theorem flared_coords_face_on:
  assumes "i < length ys" and "j < length xs" and "xs ! j = Fin x" and "ys ! i = Fin y"
    and "isfinite
           (z_func (np_hypot (Fin (x - x0)) (Fin (y - y0))) z0 r_cavity r_taper psi q_taper
            + w_func (np_hypot (Fin (x - x0)) (Fin (y - y0)))
                (np_arctan2 (snd (rotate_coords (Fin (x - x0)) (Fin (y - y0)) (Fin PA)))
                            (fst (rotate_coords (Fin (x - x0)) (Fin (y - y0)) (Fin PA))))
                r_cavity w_r w_i w_t)"
  shows "get_flared_coords (Fin x0) (Fin y0) xs ys (Fin 0) (Fin PA) z0 r_cavity r_taper psi
           q_taper w_r w_i w_t niter ! i ! j
         = (np_hypot (Fin (x - x0)) (Fin (y - y0)),
            np_arctan2 (snd (rotate_coords (Fin (x - x0)) (Fin (y - y0)) (Fin PA)))
                       (fst (rotate_coords (Fin (x - x0)) (Fin (y - y0)) (Fin PA))),
            z_func (np_hypot (Fin (x - x0)) (Fin (y - y0))) z0 r_cavity r_taper psi q_taper)"
proof -
  obtain xr yr where rot: "rotate_coords (Fin (x - x0)) (Fin (y - y0)) (Fin PA) = (Fin xr, Fin yr)"
    by (simp add: rotate_coords_Fin)
  have mid: "midplane_px (Fin 0) (Fin PA) (xs ! j - Fin x0, ys ! i - Fin y0) = (Fin xr, Fin yr)"
    using rot by (simp add: assms(3,4) midplane_px_face_on)
  have fin: "isfinite
           (z_func (np_hypot (Fin (x - x0)) (Fin (y - y0))) z0 r_cavity r_taper psi q_taper
            + w_func (np_hypot (Fin (x - x0)) (Fin (y - y0))) (np_arctan2 (Fin yr) (Fin xr))
                r_cavity w_r w_i w_t)"
    using assms(5) by (simp only: rot fst_conv snd_conv)
  show ?thesis
    by (simp only: get_flared_coords_nth [OF assms(1,2)] mid fst_conv snd_conv
          face_on_px [OF rot fin] rot)
qed

theorem flared_coords_face_on_witness:
  "get_flared_coords (Fin 0) (Fin 0) [Fin 3] [Fin 4] (Fin 0) (Fin 0) (Fin 0.3) (Fin 0)
     (Fin (10 ^ 10)) (Fin 1) (Fin 1) (Fin 1) (Fin 10) (Fin 0) 5 ! 0 ! 0
   = (np_hypot (Fin 3) (Fin 4), np_arctan2 (Fin 3) (Fin 4),
      z_func (np_hypot (Fin 3) (Fin 4)) (Fin 0.3) (Fin 0) (Fin (10 ^ 10)) (Fin 1) (Fin 1))"
proof -
  have z: "isfinite (z_func (np_hypot (Fin (3 - 0)) (Fin (4 - 0))) (Fin 0.3) (Fin 0)
                       (Fin (10 ^ 10)) (Fin 1) (Fin 1))"
    using z_func_finite [of 1 1 "10 ^ 10" "sqrt ((3 - 0) * (3 - 0) + (4 - 0) * (4 - 0))" "0.3" 0]
    by simp
  have w: "isfinite (w_func (np_hypot (Fin (3 - 0)) (Fin (4 - 0)))
              (np_arctan2 (snd (rotate_coords (Fin (3 - 0)) (Fin (4 - 0)) (Fin 0)))
                          (fst (rotate_coords (Fin (3 - 0)) (Fin (4 - 0)) (Fin 0))))
              (Fin 0) (Fin 1) (Fin 10) (Fin 0))"
    using w_func_finite [of 1 "sqrt ((3 - 0) * (3 - 0) + (4 - 0) * (4 - 0))" "atan2 3 4" 0 10 0]
    by (simp add: rotate_coords_Fin)
  show ?thesis
    using flared_coords_face_on [of 0 "[Fin 4]" 0 "[Fin 3]" 3 4 0 0 "Fin 0.3" "Fin 0" "Fin (10 ^ 10)" "Fin 1" "Fin 1"
               0 "Fin 1" "Fin 10" "Fin 0" 5, OF _ _ _ _ isfinite_add [OF z w]]
    by (simp add: rotate_coords_Fin)
qed

section \<open>The flat prior\<close>

text \<open>
  C9: the flat prior that \<open>set_prior\<close> registers for the bounds \<open>[a, b]\<close> with \<open>a < b\<close>
  returns \<open>log (1 / (b - a))\<close> for every number in the closed interval, \<open>a\<close> and \<open>b\<close>
  included, and \<open>-inf\<close> for every other number (\<open>NaN\<close> too).
\<close>

theorem flat_prior_bounds:
  assumes "pn a0 = Fin a" and "pn a1 = Fin b" and "a < b" and "num_of p = Some q"
  shows "flat_prior a0 a1 p =
           Inr (if Fin a \<le> pn q \<and> pn q \<le> Fin b then Fin (ln (1 / (b - a))) else NInf)"
  using assms
  by (cases a0; cases a1)
     (auto simp: flat_prior_def py_truediv_def py_sub_def join_num_def Let_def)

theorem flat_prior_bounds_witness:
  "flat_prior (PyNum (Fin (- 2))) (PyNum (Fin 2)) (PyFloat (Fin (- 2))) = Inr (Fin (ln (1 / 4)))
   \<and> flat_prior (PyNum (Fin (- 2))) (PyNum (Fin 2)) (NpFloat (Fin 2)) = Inr (Fin (ln (1 / 4)))
   \<and> flat_prior (PyNum (Fin (- 2))) (PyNum (Fin 2)) (NpFloat (Fin 3)) = Inr NInf
   \<and> flat_prior (PyNum (Fin (- 2))) (PyNum (Fin 2)) (NpFloat NaN) = Inr NInf"
  using flat_prior_bounds [of "PyNum (Fin (- 2))" "- 2" "PyNum (Fin 2)" 2 "PyFloat (Fin (- 2))" "PyNum (Fin (- 2))"]
        flat_prior_bounds [of "PyNum (Fin (- 2))" "- 2" "PyNum (Fin 2)" 2 "NpFloat (Fin 2)" "NpNum (Fin 2)"]
        flat_prior_bounds [of "PyNum (Fin (- 2))" "- 2" "PyNum (Fin 2)" 2 "NpFloat (Fin 3)" "NpNum (Fin 3)"]
        flat_prior_bounds [of "PyNum (Fin (- 2))" "- 2" "PyNum (Fin 2)" 2 "NpFloat NaN" "NpNum NaN"]
  by simp

section \<open>The log-likelihood\<close>

lemma fl_add_zero [simp]: "a + Fin 0 = a" "Fin 0 + a = a"
  by (cases a; simp)+

lemma concat_zip_rows:
  "map length a = map length b \<Longrightarrow>
   concat (map (\<lambda>(ra, rb). zip ra rb) (zip a b)) = zip (concat a) (concat b)"
proof (induction a arbitrary: b)
  case Nil
  then show ?case by simp
next
  case (Cons ra a)
  then obtain rb b' where b: "b = rb # b'" by (cases b) auto
  with Cons.prems have len: "length ra = length rb" and rest: "map length a = map length b'"
    by simp_all
  show ?case
    using Cons.IH [OF rest] len by (simp add: b)
qed

lemma map_length_zip_rows:
  "map length a = map length b \<Longrightarrow> map length (map (\<lambda>(ra, rb). zip ra rb) (zip a b)) = map length a"
proof (induction a arbitrary: b)
  case Nil
  then show ?case by simp
next
  case (Cons ra a)
  then obtain rb b' where b: "b = rb # b'" by (cases b) auto
  with Cons.prems have len: "length ra = length rb" and rest: "map length a = map length b'"
    by simp_all
  show ?case
    using Cons.IH [OF rest] len by (simp add: b)
qed

lemma where_sq_rows:
  "where_sq msk dat model =
     map (map (\<lambda>(m, d, v). if m then (d - v) * (d - v) else Fin 0))
       (map (\<lambda>(ra, rb). zip ra rb) (zip msk (map (\<lambda>(ra, rb). zip ra rb) (zip dat model))))"
  by (simp add: where_sq_def split_def comp_def zip_map2 np_power_2)

lemma concat_where_sq:
  assumes "map length model = map length dat" and "map length msk = map length dat"
  shows "concat (where_sq msk dat model) =
           map (\<lambda>(m, d, v). if m then (d - v) * (d - v) else Fin 0)
             (zip (concat msk) (zip (concat dat) (concat model)))"
proof -
  have 1: "map length dat = map length model" using assms(1) by simp
  have 2: "map length msk = map length (map (\<lambda>(ra, rb). zip ra rb) (zip dat model))"
    using assms(2) map_length_zip_rows [OF 1] by simp
  show ?thesis
    by (simp only: where_sq_rows map_concat [symmetric] concat_zip_rows [OF 2] concat_zip_rows [OF 1])
qed

lemma masked_sum:
  "foldl (+) a (map (\<lambda>(m, d, v). if m then (d - v) * (d - v) else Fin 0)
                  (map (\<lambda>(m, d, v). (m, d, v * k)) ps))
   = foldl (+) a (map (\<lambda>(m, d, v). (d - v * k) * (d - v * k)) (filter (\<lambda>(m, d, v). m) ps))"
  by (induction ps arbitrary: a) auto

lemma disk_coords_body_frame:
  "disk_coords_body (self\<lparr>error := e, ivar := w\<rparr>) kw frame inc = disk_coords_body self kw frame inc"
  by (simp add: disk_coords_body_def Let_def cong: if_cong)

lemma disk_coords_frame:
  "disk_coords (self\<lparr>error := e, ivar := w\<rparr>) kw = disk_coords self kw"
  by (simp add: disk_coords_def disk_coords_body_frame Let_def split: pyval.split)

lemma make_model_frame:
  "make_model (self\<lparr>error := e, ivar := w\<rparr>) params = make_model self params"
  by (simp add: make_model_def vphi_def disk_coords_frame cong: if_cong)

lemma map_length_get_flared_coords:
  "map length (get_flared_coords x0 y0 xs ys inc PA z0 r_cavity r_taper psi q_taper w_r w_i w_t niter)
   = map (\<lambda>_. length xs) ys"
  by (simp add: get_flared_coords_def get_midplane_cart_coords_def get_cart_sky_coords_def comp_def)

lemma make_model_kepler: "make_model example_map kepler_params = Inr kepler_image"
  by (simp add: make_model_def vphi_def disk_coords_def disk_coords_body_def kepler_params_def
        kepler_image_def example_map_def getitem_def kwarg_def or_default_def as_float_def
        axis_arg_def py_lower_cylindrical inc_convention_def proj_vkep_def load_global_def
        models_globals_def Let_def)

text \<open>
  C4: when the model image is computed and has the shape of the data, the
  log-likelihood is \<open>- 0.5\<close> times the sum, over the pixels whose finite-data mask is
  true, of the squared difference between the observed velocity and the modelled velocity
  (the model image times \<open>1e-3\<close>), replaced by \<open>-inf\<close> when that number is not finite.
  No weight enters: the uncertainties \<open>error\<close> and the inverse variances \<open>ivar\<close> of the
  map do not change the result.
\<close>

theorem ln_likelihood_masked_sum:
  assumes "make_model self params = Inr img"
    and "map length img = map length (data self)"
    and "map length (mask self) = map length (data self)"
  shows "ln_likelihood self params =
           Inr (let s = Fin (- 0.5) *
                        foldl (+) (Fin 0)
                          (map (\<lambda>(m, d, v). (d - v * Fin 0.001) * (d - v * Fin 0.001))
                             (filter (\<lambda>(m, d, v). m)
                                (zip (concat (mask self)) (zip (concat (data self)) (concat img)))))
                in if isfinite s then s else NInf)
         \<and> ln_likelihood (self\<lparr>error := e, ivar := w\<rparr>) params = ln_likelihood self params"
proof -
  let ?model = "map (map (\<lambda>v. v * Fin 0.001)) img"
  have 1: "map length ?model = map length (data self)"
    using assms(2) by (simp add: comp_def)
  have c: "concat ?model = map (\<lambda>v. v * Fin 0.001) (concat img)"
    by (simp add: map_concat)
  have z: "zip (concat (mask self)) (zip (concat (data self)) (map (\<lambda>v. v * Fin 0.001) (concat img)))
           = map (\<lambda>(m, d, v). (m, d, v * Fin 0.001))
               (zip (concat (mask self)) (zip (concat (data self)) (concat img)))"
    by (simp add: zip_map2 split_def)
  have "np_sum (where_sq (mask self) (data self) ?model)
        = foldl (+) (Fin 0)
            (map (\<lambda>(m, d, v). (d - v * Fin 0.001) * (d - v * Fin 0.001))
               (filter (\<lambda>(m, d, v). m)
                  (zip (concat (mask self)) (zip (concat (data self)) (concat img)))))"
    unfolding np_sum_def concat_where_sq [OF 1 assms(3)] c z
    by (rule masked_sum)
  then have "ln_likelihood self params =
           Inr (let s = Fin (- 0.5) *
                        foldl (+) (Fin 0)
                          (map (\<lambda>(m, d, v). (d - v * Fin 0.001) * (d - v * Fin 0.001))
                             (filter (\<lambda>(m, d, v). m)
                                (zip (concat (mask self)) (zip (concat (data self)) (concat img)))))
                in if isfinite s then s else NInf)"
    using 1 assms(1,3) by (simp add: ln_likelihood_def Let_def)
  moreover have "ln_likelihood (self\<lparr>error := e, ivar := w\<rparr>) params = ln_likelihood self params"
    by (simp add: ln_likelihood_def make_model_frame Let_def cong: if_cong)
  ultimately show ?thesis by simp
qed

theorem ln_likelihood_masked_sum_witness:
  "ln_likelihood example_map kepler_params =
     Inr (let s = Fin (- 0.5) *
                  foldl (+) (Fin 0)
                    (map (\<lambda>(m, d, v). (d - v * Fin 0.001) * (d - v * Fin 0.001))
                       (filter (\<lambda>(m, d, v). m)
                          (zip [True, True, True, False]
                             (zip [Fin 1, Fin 2, Fin 3, NaN] (concat kepler_image)))))
          in if isfinite s then s else NInf)"
proof -
  have 1: "map length kepler_image = map length (data example_map)"
    by (simp add: kepler_image_def map_length_get_flared_coords example_map_def comp_def)
  have 2: "map length (mask example_map) = map length (data example_map)"
    by (simp add: example_map_def)
  from ln_likelihood_masked_sum [OF make_model_kepler 1 2] show ?thesis
    by (simp add: example_map_def)
qed

section \<open>The log-prior and the log-probability\<close>

lemma ln_prior_loop_append:
  assumes "isfinite lnp"
  shows "ln_prior_loop priors (pre @ post) lnp =
           bind_err (ln_prior_loop priors pre lnp)
             (\<lambda>s. if isfinite s then ln_prior_loop priors post s else Inr s)"
  using assms
proof (induction pre arbitrary: lnp)
  case Nil
  then show ?case by simp
next
  case (Cons kv pre)
  obtain k v where kv: "kv = (k, v)" by (cases kv)
  show ?case
  proof (cases "priors k")
    case None
    then show ?thesis using Cons by (simp add: kv)
  next
    case (Some f)
    show ?thesis
    proof (cases "f v")
      case (Inl e)
      then show ?thesis using Some by (simp add: kv)
    next
      case (Inr t)
      then show ?thesis using Some Cons by (simp add: kv Let_def)
    qed
  qed
qed

lemma ln_prior_short_circuit:
  assumes "ln_prior priors pre = Inr s" and "isfinite s"
    and "priors k = Some f" and "f v = Inr NInf"
  shows "ln_prior priors (pre @ (k, v) # post) = Inr NInf"
  using assms
  by (auto simp: ln_prior_def ln_prior_loop_append isfinite_iff Let_def)

lemma ln_prior_loop_rejects:
  assumes "(k, v) \<in> set model" and "priors k = Some f" and "f v = Inr NInf"
    and "\<forall>(k', v') \<in> set model. \<forall>g. priors k' = Some g \<longrightarrow> (\<exists>t. g v' = Inr t)"
    and "isfinite lnp"
  shows "\<exists>s. ln_prior_loop priors model lnp = Inr s \<and> \<not> isfinite s"
  using assms
proof (induction model arbitrary: lnp)
  case Nil
  then show ?case by simp
next
  case (Cons kv model)
  obtain k' v' where kv: "kv = (k', v')" by (cases kv)
  have all: "\<forall>(k', v') \<in> set model. \<forall>g. priors k' = Some g \<longrightarrow> (\<exists>t. g v' = Inr t)"
    using Cons.prems(4) by simp
  show ?case
  proof (cases "priors k'")
    case None
    then have "(k, v) \<in> set model" using Cons.prems(1,2) by (auto simp: kv)
    from Cons.IH [OF this Cons.prems(2,3) all Cons.prems(5)] show ?thesis
      using None by (simp add: kv)
  next
    case (Some g)
    then obtain t where t: "g v' = Inr t" using Cons.prems(4) by (auto simp: kv)
    show ?thesis
    proof (cases "isfinite (lnp + t)")
      case False
      then show ?thesis using Some t by (simp add: kv Let_def)
    next
      case True
      have "(k, v) \<noteq> (k', v')"
      proof
        assume "(k, v) = (k', v')"
        then have "t = NInf" using Some t Cons.prems(2,3) by simp
        then show False using True Cons.prems(5) by (auto simp: isfinite_iff)
      qed
      then have "(k, v) \<in> set model" using Cons.prems(1) by (auto simp: kv)
      from Cons.IH [OF this Cons.prems(2,3) all True] show ?thesis
        using Some t True by (simp add: kv Let_def)
    qed
  qed
qed

lemma populate_keeps_fixed:
  assumes "populate_dictionary theta params = Inr model"
    and "(k, v) \<in> set params" and "\<forall>i. v \<noteq> PyInt i"
  shows "(k, v) \<in> set model"
  using assms
proof (induction params arbitrary: model)
  case Nil
  then show ?case by simp
next
  case (Cons kv rest)
  obtain key val where kv: "kv = (key, val)" by (cases kv)
  show ?case
    using Cons by (cases val) (auto simp: kv bind_err_def split: sum.splits)
qed

lemma populate_succeeds:
  assumes "\<forall>(k, v) \<in> set params. \<forall>i. v = PyInt i \<longrightarrow>
             - int (length theta) \<le> i \<and> i < int (length theta)"
  shows "\<exists>model. populate_dictionary theta params = Inr model"
  using assms
proof (induction params)
  case Nil
  then show ?case by simp
next
  case (Cons kv rest)
  obtain key val where kv: "kv = (key, val)" by (cases kv)
  from Cons obtain m where m: "populate_dictionary theta rest = Inr m" by auto
  show ?case
    using Cons.prems m by (cases val) (auto simp: kv py_index_def)
qed

lemma set_prior_flat:
  "set_prior priors param args ''flat'' = Inr (priors(param \<mapsto> flat_prior (fst args) (snd args)))"
  by (simp add: set_prior_def py_lower_flat)

lemma example_nanmin: "np_nanmin (concat (data example_map)) = Inr (Fin 1)"
  by (simp add: np_nanmin_def example_map_def)

lemma example_nanmax: "np_nanmax (concat (data example_map)) = Inr (Fin 3)"
  by (simp add: np_nanmax_def example_map_def)

lemma example_xmax: "np_max (xaxis example_map) = Inr (Fin 1)"
  by (simp add: np_max_def example_map_def)

lemma example_priors_lookup:
  "example_priors ''inc'' = Some (flat_prior (PyNum (Fin (- 90))) (PyNum (Fin 90)))"
  "example_priors ''PA'' = Some (flat_prior (PyNum (Fin (- 360))) (PyNum (Fin 360)))"
  "example_priors ''mstar'' = Some (flat_prior (PyNum (Fin 0.1)) (PyNum (Fin 5)))"
  "example_priors ''vlsr'' = Some (flat_prior (NpNum (Fin 1000)) (NpNum (Fin 3000)))"
  "example_priors ''dist'' = None"
  "example_priors ''vfunc'' = None"
  "example_priors ''beam'' = None"
  by (simp_all add: example_priors_def set_default_priors_def set_prior_flat
        default_priors_geometry_def default_priors_surface_def default_priors_velocity_def
        example_nanmin example_nanmax example_xmax)

lemma populate_kepler_spec:
  "populate_dictionary [i, m] kepler_spec = Inr (kepler_model i m)"
  by (simp add: kepler_spec_def kepler_model_def py_index_def)

lemmas flat_prior_eval = flat_prior_def py_truediv_def py_sub_def join_num_def Let_def

lemma ln_prior_kepler_inside:
  "ln_prior example_priors (kepler_model (Fin 30) (Fin 1))
   = Inr (Fin (ln (1 / 180) + ln (1 / 720) + ln (1 / (5 - 0.1)) + ln (1 / 2000)))"
  by (simp add: ln_prior_def kepler_model_def example_priors_lookup flat_prior_eval)

lemma ln_prior_kepler_outside:
  "ln_prior example_priors (kepler_model (Fin 30) (Fin 10)) = Inr NInf"
  by (simp add: ln_prior_def kepler_model_def example_priors_lookup flat_prior_eval)

lemma ln_prior_inc_only:
  "ln_prior example_priors [(''inc'', NpFloat (Fin 30))] = Inr (Fin (ln (1 / 180)))"
  by (simp add: ln_prior_def example_priors_lookup flat_prior_eval)

lemma flat_prior_mstar_10:
  "flat_prior (PyNum (Fin 0.1)) (PyNum (Fin 5)) (NpFloat (Fin 10)) = Inr NInf"
  by (simp add: flat_prior_eval)

text \<open>
  C5: for the populated dictionary \<open>model\<close> and its log-prior \<open>lnp\<close>, the log-probability
  is \<open>lnp\<close> plus the log-likelihood when \<open>lnp\<close> is finite; it is \<open>-inf\<close> when \<open>lnp\<close> is
  \<open>-inf\<close>, whatever the likelihood function would do (it is not called, so neither the
  geometry nor the model is evaluated); and the log-prior is \<open>-inf\<close> as soon as the loop
  meets a registered prior term that is \<open>-inf\<close>, whatever entries follow: the loop meets
  the term of \<open>(k, v)\<close> when the log-prior of the entries \<open>pre\<close> before it is finite.
\<close>

theorem ln_probability_prior_gate:
  "(populate_dictionary theta params = Inr model \<and> ln_prior priors model = Inr lnp \<and> isfinite lnp
      \<longrightarrow> ln_probability_with lnlike priors theta params
            = bind_err (lnlike model) (\<lambda>l. Inr (lnp + l)))
   \<and> (populate_dictionary theta params = Inr model \<and> ln_prior priors model = Inr NInf
      \<longrightarrow> ln_probability_with lnlike priors theta params = Inr NInf)
   \<and> (ln_prior priors pre = Inr s \<and> isfinite s \<and> priors k = Some f \<and> f v = Inr NInf
      \<longrightarrow> ln_prior priors (pre @ (k, v) # post) = Inr NInf)
   \<and> ln_probability self priors theta params
       = ln_probability_with (ln_likelihood self) priors theta params"
  by (auto simp: ln_probability_with_def ln_probability_def ln_prior_short_circuit)

theorem ln_probability_prior_gate_witness:
  "ln_probability_with (ln_likelihood example_map) example_priors [Fin 30, Fin 1] kepler_spec
     = bind_err (ln_likelihood example_map (kepler_model (Fin 30) (Fin 1)))
         (\<lambda>l. Inr (Fin (ln (1 / 180) + ln (1 / 720) + ln (1 / (5 - 0.1)) + ln (1 / 2000)) + l))
   \<and> ln_probability_with (\<lambda>model. Inl (NameError ''never called'')) example_priors
        [Fin 30, Fin 10] kepler_spec = Inr NInf
   \<and> ln_prior example_priors
        ([(''inc'', NpFloat (Fin 30))] @ (''mstar'', NpFloat (Fin 10)) # [(''PA'', PyFloat (Fin 45))])
       = Inr NInf"
  using
    ln_probability_prior_gate [where theta = "[Fin 30, Fin 1]" and params = kepler_spec
          and model = "kepler_model (Fin 30) (Fin 1)" and priors = example_priors
          and lnp = "Fin (ln (1 / 180) + ln (1 / 720) + ln (1 / (5 - 0.1)) + ln (1 / 2000))"
          and lnlike = "ln_likelihood example_map"]
    ln_probability_prior_gate [where theta = "[Fin 30, Fin 10]" and params = kepler_spec
          and model = "kepler_model (Fin 30) (Fin 10)" and priors = example_priors
          and lnlike = "\<lambda>model. Inl (NameError ''never called'')"]
    ln_probability_prior_gate [where priors = example_priors and pre = "[(''inc'', NpFloat (Fin 30))]"
          and s = "Fin (ln (1 / 180))" and k = "''mstar''"
          and f = "flat_prior (PyNum (Fin 0.1)) (PyNum (Fin 5))" and v = "NpFloat (Fin 10)"
          and post = "[(''PA'', PyFloat (Fin 45))]"]
    populate_kepler_spec ln_prior_kepler_inside ln_prior_kepler_outside ln_prior_inc_only
    flat_prior_mstar_10 example_priors_lookup(3)
  by simp

text \<open>
  C10: \<open>_ln_prior\<close> walks every entry of the populated dictionary, the fixed ones too.
  If an entry \<open>(k, v)\<close> of the parameter specification is fixed (no index into \<open>theta\<close>) and
  the prior registered for \<open>k\<close> is \<open>-inf\<close> at \<open>v\<close>, then for every \<open>theta\<close> that supplies
  the free parameters, and with no registered prior raising, the log-probability is
  \<open>-inf\<close>, whatever the likelihood.
\<close>

theorem fixed_parameter_outside_prior:
  assumes "populate_dictionary theta params = Inr model"
    and "(k, v) \<in> set params" and "\<forall>i. v \<noteq> PyInt i"
    and "priors k = Some f" and "f v = Inr NInf"
    and "\<forall>(k', v') \<in> set model. \<forall>g. priors k' = Some g \<longrightarrow> (\<exists>t. g v' = Inr t)"
  shows "ln_probability_with lnlike priors theta params = Inr NInf
       \<and> ln_probability self priors theta params = Inr NInf"
proof -
  have "(k, v) \<in> set model"
    by (rule populate_keeps_fixed [OF assms(1,2,3)])
  from ln_prior_loop_rejects [OF this assms(4,5,6), of "Fin 0"]
  obtain s where "ln_prior priors model = Inr s" and "\<not> isfinite s"
    by (auto simp: ln_prior_def)
  then show ?thesis
    using assms(1) by (simp add: ln_probability_def ln_probability_with_def)
qed

theorem fixed_parameter_outside_prior_witness:
  "ln_probability example_map example_priors [Fin 30] fixed_mstar_spec = Inr NInf"
proof -
  let ?model = "[(''inc'', NpFloat (Fin 30)), (''PA'', PyFloat (Fin 45)), (''mstar'', PyFloat (Fin 10)),
      (''dist'', PyFloat (Fin 100)), (''vlsr'', PyFloat (Fin 2000)),
      (''vfunc'', PyStr ''proj_vkep''), (''beam'', PyBool False)]"
  have 1: "populate_dictionary [Fin 30] fixed_mstar_spec = Inr ?model"
    by (simp add: fixed_mstar_spec_def py_index_def)
  have 2: "(''mstar'', PyFloat (Fin 10)) \<in> set fixed_mstar_spec"
    by (simp add: fixed_mstar_spec_def)
  have 3: "\<forall>i. PyFloat (Fin 10) \<noteq> PyInt i" by simp
  have 5: "flat_prior (PyNum (Fin 0.1)) (PyNum (Fin 5)) (PyFloat (Fin 10)) = Inr NInf"
    by (simp add: flat_prior_eval)
  have 6: "\<forall>(k', v') \<in> set ?model. \<forall>g. example_priors k' = Some g \<longrightarrow> (\<exists>t. g v' = Inr t)"
    by (simp add: example_priors_lookup flat_prior_eval)
  from fixed_parameter_outside_prior [OF 1 2 3 example_priors_lookup(3) 5 6] show ?thesis by simp
qed

section \<open>Verification of a parameter dictionary\<close>

lemma map_of_pop_default:
  "map_of (pop_default k dflt d) = (map_of d)(k \<mapsto> kwarg d k dflt)"
  by (simp add: pop_default_def kwarg_def AList.update_conv' AList.delete_conv')

lemma map_of_fill_defaults:
  "map_of (fill_defaults table d) k
   = (case map_of d k of Some v \<Rightarrow> Some v | None \<Rightarrow> map_of table k)"
proof (induction table arbitrary: d)
  case Nil
  then show ?case by (simp add: fill_defaults_def split: option.split)
next
  case (Cons kd table)
  obtain k0 d0 where kd: "kd = (k0, d0)" by (cases kd)
  have "fill_defaults (kd # table) d = fill_defaults table (pop_default k0 d0 d)"
    by (simp add: fill_defaults_def kd)
  then show ?case
    by (simp add: Cons.IH map_of_pop_default kd kwarg_def split: option.split)
qed

lemma get_is_none_fill:
  "map_of table k = None \<Longrightarrow> get_is_none (fill_defaults table d) k = get_is_none d k"
  by (simp add: get_is_none_def map_of_fill_defaults split: option.split)

lemma pop_default_fill: "pop_default k dflt d = fill_defaults [(k, dflt)] d"
  by (simp add: fill_defaults_def)

lemma fill_defaults_append:
  "fill_defaults t2 (fill_defaults t1 d) = fill_defaults (t1 @ t2) d"
  by (simp add: fill_defaults_def)

lemma geometry_keys:
  "map_of (defaults_geometry self) ''inc'' = None"
  "map_of (defaults_geometry self) ''PA'' = None"
  "map_of (defaults_geometry self) ''mstar'' = None"
  "map_of (defaults_geometry self) ''vp_100'' = None"
  "map_of (defaults_geometry self) ''vfunc'' = None"
  by (simp_all add: defaults_geometry_def)

lemma verify_unfold:
  assumes "py_max (xaxis self) = Inr xmax"
    and "np_nanmin (concat (data self)) = Inr dmin"
    and "np_nanmax (concat (data self)) = Inr dmax"
    and "\<not> get_is_none params ''inc''" and "\<not> get_is_none params ''PA''"
    and "get_is_none params ''mstar'' \<noteq> get_is_none params ''vp_100''"
  shows "verify_params_dictionary self params =
     (let P = fill_defaults
                (defaults_profile @ [(''w_r'', NpFloat (Fin 0.5 * xmax))] @ defaults_mask
                 @ [(''v_min'', NpFloat dmin), (''v_max'', NpFloat dmax), (''exclude_v'', PyBool False)])
                (AList.update ''vfunc''
                   (PyStr (if get_is_none params ''mstar'' then ''proj_vpow'' else ''proj_vkep''))
                   (fill_defaults (defaults_geometry self) params))
      in bind_err (check_bounds P ''r_min'' ''r_max'') (\<lambda>_.
         bind_err (check_bounds P ''PA_min'' ''PA_max'') (\<lambda>_.
         bind_err (check_bounds P ''v_min'' ''v_max'') (\<lambda>_.
           Inr (AList.update ''beam'' (PyBool (py_bool (kwarg P ''beam'' (PyBool False))))
                  (AList.delete ''beam'' P))))))"
  using assms
  by (auto simp: verify_params_dictionary_def Let_def get_is_none_fill geometry_keys
        pop_default_fill fill_defaults_append)

lemma filled_lookup:
  "map_of (fill_defaults
             (defaults_profile @ [(''w_r'', NpFloat (Fin 0.5 * xmax))] @ defaults_mask
              @ [(''v_min'', NpFloat dmin), (''v_max'', NpFloat dmax), (''exclude_v'', PyBool False)])
             (AList.update ''vfunc'' vf (fill_defaults (defaults_geometry self) params))) k
   = (if k = ''vfunc'' then Some vf
      else case map_of params k of
             Some v \<Rightarrow> Some v
           | None \<Rightarrow> map_of (all_defaults self xmax dmin dmax) k)"
  by (simp add: map_of_fill_defaults AList.update_conv' all_defaults_def map_add_def
        split: option.split)

lemma all_defaults_distinct: "distinct (map fst (all_defaults self xmax dmin dmax))"
  by (simp add: all_defaults_def defaults_geometry_def defaults_profile_def defaults_mask_def)

lemma all_defaults_other_keys:
  "map_of (all_defaults self xmax dmin dmax) ''vfunc'' = None"
  "map_of (all_defaults self xmax dmin dmax) ''beam'' = None"
  by (simp_all add: all_defaults_def defaults_geometry_def defaults_profile_def defaults_mask_def)

lemma all_defaults_bounds:
  "map_of (all_defaults self xmax dmin dmax) ''r_min'' = Some (PyFloat (Fin 0))"
  "map_of (all_defaults self xmax dmin dmax) ''r_max'' = Some (PyFloat (Fin (10 ^ 10)))"
  "map_of (all_defaults self xmax dmin dmax) ''PA_min'' = Some (PyFloat (Fin (- pi)))"
  "map_of (all_defaults self xmax dmin dmax) ''PA_max'' = Some (PyFloat (Fin pi))"
  "map_of (all_defaults self xmax dmin dmax) ''v_min'' = Some (NpFloat dmin)"
  "map_of (all_defaults self xmax dmin dmax) ''v_max'' = Some (NpFloat dmax)"
  by (simp_all add: all_defaults_def defaults_geometry_def defaults_profile_def defaults_mask_def)

lemma py_ge_numeric:
  "num_of a = Some x \<Longrightarrow> num_of b = Some y \<Longrightarrow> py_ge a b = Inr (pn y \<le> pn x)"
  by (cases a; cases b) (simp_all add: py_ge_def)

lemma check_bounds_numeric:
  assumes "map_of P kmin = Some lo" and "map_of P kmax = Some hi"
    and "num_of lo = Some x" and "num_of hi = Some y"
  shows "check_bounds P kmin kmax = (if py_ge lo hi = Inr True then Inl (ValueError kmax) else Inr ())"
  using assms by (simp add: check_bounds_def getitem_def py_ge_numeric)

lemma filled_kwarg:
  assumes "k \<noteq> ''vfunc''" and "map_of (all_defaults self xmax dmin dmax) k = Some dflt"
  shows "map_of (fill_defaults
             (defaults_profile @ [(''w_r'', NpFloat (Fin 0.5 * xmax))] @ defaults_mask
              @ [(''v_min'', NpFloat dmin), (''v_max'', NpFloat dmax), (''exclude_v'', PyBool False)])
             (AList.update ''vfunc'' vf (fill_defaults (defaults_geometry self) params))) k
         = Some (kwarg params k dflt)"
  using assms unfolding filled_lookup by (simp add: kwarg_def split: option.split)

lemma kwarg_numeric:
  assumes "\<forall>v. map_of params k = Some v \<longrightarrow> num_of v \<noteq> None" and "num_of dflt \<noteq> None"
  shows "\<exists>n. num_of (kwarg params k dflt) = Some n"
  using assms by (auto simp: kwarg_def split: option.split)

lemma example_py_max: "py_max (xaxis example_map) = Inr (Fin 1)"
  by (simp add: py_max_def example_map_def)

lemma pi_not_le_zero: "\<not> pi \<le> 0"
  using pi_gt_zero by linarith

text \<open>
  C3: for a map with a non-empty axis and non-empty data (so that the defaults of \<open>w_r\<close>,
  \<open>v_min\<close> and \<open>v_max\<close> can be computed) and a dictionary whose bound entries, where
  given, are numbers, \<open>verify_params_dictionary\<close> raises if and only if \<open>inc\<close> is missing,
  \<open>PA\<close> is missing, \<open>mstar\<close> and \<open>vp_100\<close> are both given, neither is given, or one of
  the pairs \<open>(r_min, r_max)\<close>, \<open>(PA_min, PA_max)\<close>, \<open>(v_min, v_max)\<close> has \<open>min >= max\<close> after
  defaulting; a key counts as missing when it is absent or holds \<open>None\<close>. Otherwise the
  dictionary returned holds, under every key of the table of defaults, the value given or
  else the default, \<open>vfunc\<close> names the rotation law, \<open>beam\<close> is a \<open>bool\<close>, and every
  other key is as given.
\<close>

theorem verify_params_dictionary_raises_iff:
  assumes "py_max (xaxis self) = Inr xmax"
    and "np_nanmin (concat (data self)) = Inr dmin"
    and "np_nanmax (concat (data self)) = Inr dmax"
    and "\<forall>k \<in> set [''r_min'', ''r_max'', ''PA_min'', ''PA_max'', ''v_min'', ''v_max''].
           \<forall>v. map_of params k = Some v \<longrightarrow> num_of v \<noteq> None"
  shows "isl (verify_params_dictionary self params) =
           (get_is_none params ''inc'' \<or> get_is_none params ''PA''
            \<or> (\<not> get_is_none params ''mstar'' \<and> \<not> get_is_none params ''vp_100'')
            \<or> (get_is_none params ''mstar'' \<and> get_is_none params ''vp_100'')
            \<or> py_ge (kwarg params ''r_min'' (PyFloat (Fin 0)))
                     (kwarg params ''r_max'' (PyFloat (Fin (10 ^ 10)))) = Inr True
            \<or> py_ge (kwarg params ''PA_min'' (PyFloat (Fin (- pi))))
                     (kwarg params ''PA_max'' (PyFloat (Fin pi))) = Inr True
            \<or> py_ge (kwarg params ''v_min'' (NpFloat dmin))
                     (kwarg params ''v_max'' (NpFloat dmax)) = Inr True)
       \<and> (\<forall>d. verify_params_dictionary self params = Inr d \<longrightarrow>
             (\<forall>(k, dflt) \<in> set (all_defaults self xmax dmin dmax).
                 map_of d k = Some (kwarg params k dflt))
             \<and> map_of d ''vfunc''
                 = Some (PyStr (if get_is_none params ''mstar'' then ''proj_vpow'' else ''proj_vkep''))
             \<and> map_of d ''beam'' = Some (PyBool (py_bool (kwarg params ''beam'' (PyBool False))))
             \<and> (\<forall>k. k \<notin> fst ` set (all_defaults self xmax dmin dmax) \<union> {''vfunc'', ''beam''}
                   \<longrightarrow> map_of d k = map_of params k))"
proof (cases "get_is_none params ''inc'' \<or> get_is_none params ''PA''
            \<or> get_is_none params ''mstar'' = get_is_none params ''vp_100''")
  case True
  then have "isl (verify_params_dictionary self params)"
    by (auto simp: verify_params_dictionary_def Let_def get_is_none_fill geometry_keys)
  then show ?thesis using True by (auto simp: isl_def)
next
  case False
  define vf where "vf = PyStr (if get_is_none params ''mstar'' then ''proj_vpow'' else ''proj_vkep'')"
  define P where "P = fill_defaults
             (defaults_profile @ [(''w_r'', NpFloat (Fin 0.5 * xmax))] @ defaults_mask
              @ [(''v_min'', NpFloat dmin), (''v_max'', NpFloat dmax), (''exclude_v'', PyBool False)])
             (AList.update ''vfunc'' vf (fill_defaults (defaults_geometry self) params))"
  have lookup: "\<And>k. map_of P k = (if k = ''vfunc'' then Some vf
      else case map_of params k of Some v \<Rightarrow> Some v
           | None \<Rightarrow> map_of (all_defaults self xmax dmin dmax) k)"
    unfolding P_def by (rule filled_lookup)
  have V: "verify_params_dictionary self params =
         bind_err (check_bounds P ''r_min'' ''r_max'') (\<lambda>_.
         bind_err (check_bounds P ''PA_min'' ''PA_max'') (\<lambda>_.
         bind_err (check_bounds P ''v_min'' ''v_max'') (\<lambda>_.
           Inr (AList.update ''beam'' (PyBool (py_bool (kwarg P ''beam'' (PyBool False))))
                  (AList.delete ''beam'' P)))))"
    using verify_unfold [OF assms(1,2,3), of params] False
    by (simp add: P_def vf_def Let_def)
  have kw: "\<And>k dflt. k \<noteq> ''vfunc'' \<Longrightarrow> map_of (all_defaults self xmax dmin dmax) k = Some dflt
              \<Longrightarrow> map_of P k = Some (kwarg params k dflt)"
    unfolding P_def by (rule filled_kwarg)
  obtain a1 b1 where r: "num_of (kwarg params ''r_min'' (PyFloat (Fin 0))) = Some a1"
      "num_of (kwarg params ''r_max'' (PyFloat (Fin (10 ^ 10)))) = Some b1"
    using kwarg_numeric [of params "''r_min''" "PyFloat (Fin 0)"]
      kwarg_numeric [of params "''r_max''" "PyFloat (Fin (10 ^ 10))"] assms(4) by auto
  obtain a2 b2 where p: "num_of (kwarg params ''PA_min'' (PyFloat (Fin (- pi)))) = Some a2"
      "num_of (kwarg params ''PA_max'' (PyFloat (Fin pi))) = Some b2"
    using kwarg_numeric [of params "''PA_min''" "PyFloat (Fin (- pi))"]
      kwarg_numeric [of params "''PA_max''" "PyFloat (Fin pi)"] assms(4) by auto
  obtain a3 b3 where v: "num_of (kwarg params ''v_min'' (NpFloat dmin)) = Some a3"
      "num_of (kwarg params ''v_max'' (NpFloat dmax)) = Some b3"
    using kwarg_numeric [of params "''v_min''" "NpFloat dmin"]
      kwarg_numeric [of params "''v_max''" "NpFloat dmax"] assms(4) by auto
  have c1: "check_bounds P ''r_min'' ''r_max'' =
      (if py_ge (kwarg params ''r_min'' (PyFloat (Fin 0)))
                (kwarg params ''r_max'' (PyFloat (Fin (10 ^ 10)))) = Inr True
       then Inl (ValueError ''r_max'') else Inr ())"
    by (rule check_bounds_numeric [OF kw kw r]) (simp_all add: all_defaults_bounds)
  have c2: "check_bounds P ''PA_min'' ''PA_max'' =
      (if py_ge (kwarg params ''PA_min'' (PyFloat (Fin (- pi))))
                (kwarg params ''PA_max'' (PyFloat (Fin pi))) = Inr True
       then Inl (ValueError ''PA_max'') else Inr ())"
    by (rule check_bounds_numeric [OF kw kw p]) (simp_all add: all_defaults_bounds)
  have c3: "check_bounds P ''v_min'' ''v_max'' =
      (if py_ge (kwarg params ''v_min'' (NpFloat dmin))
                (kwarg params ''v_max'' (NpFloat dmax)) = Inr True
       then Inl (ValueError ''v_max'') else Inr ())"
    by (rule check_bounds_numeric [OF kw kw v]) (simp_all add: all_defaults_bounds)
  have beam: "kwarg P ''beam'' (PyBool False) = kwarg params ''beam'' (PyBool False)"
    by (simp add: kwarg_def lookup all_defaults_other_keys split: option.split)
  have fields: "map_of (AList.update ''beam'' (PyBool (py_bool (kwarg P ''beam'' (PyBool False))))
                  (AList.delete ''beam'' P)) k = Some (kwarg params k dflt)"
    if "(k, dflt) \<in> set (all_defaults self xmax dmin dmax)" for k dflt
  proof -
    have m: "map_of (all_defaults self xmax dmin dmax) k = Some dflt"
      using that all_defaults_distinct by (rule map_of_is_SomeI [rotated])
    then have "k \<noteq> ''vfunc''" "k \<noteq> ''beam''"
      using all_defaults_other_keys [of self xmax dmin dmax] by auto
    then show ?thesis
      using kw [OF _ m] by (simp add: AList.update_conv' AList.delete_conv')
  qed
  have others: "map_of (AList.update ''beam'' (PyBool (py_bool (kwarg P ''beam'' (PyBool False))))
                  (AList.delete ''beam'' P)) k = map_of params k"
    if "k \<notin> fst ` set (all_defaults self xmax dmin dmax) \<union> {''vfunc'', ''beam''}" for k
  proof -
    have "map_of (all_defaults self xmax dmin dmax) k = None"
      using that by (simp add: map_of_eq_None_iff)
    then show ?thesis
      using that by (simp add: AList.update_conv' AList.delete_conv' lookup split: option.split)
  qed
  have vfunc: "map_of (AList.update ''beam'' (PyBool (py_bool (kwarg P ''beam'' (PyBool False))))
                  (AList.delete ''beam'' P)) ''vfunc'' = Some vf"
    by (simp add: AList.update_conv' AList.delete_conv' lookup)
  have beamv: "map_of (AList.update ''beam'' (PyBool (py_bool (kwarg P ''beam'' (PyBool False))))
                  (AList.delete ''beam'' P)) ''beam''
               = Some (PyBool (py_bool (kwarg params ''beam'' (PyBool False))))"
    by (simp add: AList.update_conv' beam)
  show ?thesis
    using False fields others vfunc beamv
    by (auto simp: V c1 c2 c3 vf_def)
qed

theorem verify_params_dictionary_raises_iff_witness:
  "\<not> isl (verify_params_dictionary example_map powerlaw_spec)
   \<and> isl (verify_params_dictionary example_map ((''mstar'', PyFloat (Fin 1)) # powerlaw_spec))
   \<and> isl (verify_params_dictionary example_map
             [(''inc'', PyFloat (Fin 30)), (''PA'', PyFloat (Fin 45))])
   \<and> isl (verify_params_dictionary example_map
             [(''inc'', PyNone), (''PA'', PyFloat (Fin 45)), (''mstar'', PyFloat (Fin 1))])
   \<and> isl (verify_params_dictionary example_map
             ((''r_min'', PyFloat (Fin 2)) # (''r_max'', PyFloat (Fin 2)) # powerlaw_spec))
   \<and> (\<exists>d. verify_params_dictionary example_map powerlaw_spec = Inr d
          \<and> map_of d ''dist'' = Some (PyFloat (Fin 100))
          \<and> map_of d ''psi'' = Some (PyFloat (Fin 1))
          \<and> map_of d ''vfunc'' = Some (PyStr ''proj_vpow'')
          \<and> map_of d ''inc'' = Some (PyFloat (Fin 30)))"
proof -
  note T = verify_params_dictionary_raises_iff
    [OF example_py_max example_nanmin example_nanmax]
  note ev = get_is_none_def kwarg_def py_ge_def powerlaw_spec_def pi_not_le_zero
  let ?A = "all_defaults example_map (Fin 1) (Fin 1) (Fin 3)"
  have h1: "\<forall>k \<in> set [''r_min'', ''r_max'', ''PA_min'', ''PA_max'', ''v_min'', ''v_max''].
     \<forall>v. map_of powerlaw_spec k = Some v \<longrightarrow> num_of v \<noteq> None"
    by (simp add: powerlaw_spec_def)
  have 1: "\<not> isl (verify_params_dictionary example_map powerlaw_spec)"
    unfolding T [OF h1, THEN conjunct1] by (simp add: ev)
  have h2: "\<forall>k \<in> set [''r_min'', ''r_max'', ''PA_min'', ''PA_max'', ''v_min'', ''v_max''].
     \<forall>v. map_of ((''mstar'', PyFloat (Fin 1)) # powerlaw_spec) k = Some v \<longrightarrow> num_of v \<noteq> None"
    by (simp add: powerlaw_spec_def)
  have 2: "isl (verify_params_dictionary example_map ((''mstar'', PyFloat (Fin 1)) # powerlaw_spec))"
    unfolding T [OF h2, THEN conjunct1] by (simp add: ev)
  have h3: "\<forall>k \<in> set [''r_min'', ''r_max'', ''PA_min'', ''PA_max'', ''v_min'', ''v_max''].
     \<forall>v. map_of [(''inc'', PyFloat (Fin 30)), (''PA'', PyFloat (Fin 45))] k = Some v
       \<longrightarrow> num_of v \<noteq> None"
    by simp
  have 3: "isl (verify_params_dictionary example_map
             [(''inc'', PyFloat (Fin 30)), (''PA'', PyFloat (Fin 45))])"
    unfolding T [OF h3, THEN conjunct1] by (simp add: ev)
  have h4: "\<forall>k \<in> set [''r_min'', ''r_max'', ''PA_min'', ''PA_max'', ''v_min'', ''v_max''].
     \<forall>v. map_of [(''inc'', PyNone), (''PA'', PyFloat (Fin 45)), (''mstar'', PyFloat (Fin 1))] k
       = Some v \<longrightarrow> num_of v \<noteq> None"
    by simp
  have 4: "isl (verify_params_dictionary example_map
             [(''inc'', PyNone), (''PA'', PyFloat (Fin 45)), (''mstar'', PyFloat (Fin 1))])"
    unfolding T [OF h4, THEN conjunct1] by (simp add: ev)
  have h5: "\<forall>k \<in> set [''r_min'', ''r_max'', ''PA_min'', ''PA_max'', ''v_min'', ''v_max''].
     \<forall>v. map_of ((''r_min'', PyFloat (Fin 2)) # (''r_max'', PyFloat (Fin 2)) # powerlaw_spec) k
       = Some v \<longrightarrow> num_of v \<noteq> None"
    by (simp add: powerlaw_spec_def)
  have 5: "isl (verify_params_dictionary example_map
             ((''r_min'', PyFloat (Fin 2)) # (''r_max'', PyFloat (Fin 2)) # powerlaw_spec))"
    unfolding T [OF h5, THEN conjunct1] by (simp add: ev)
  from 1 obtain d where d: "verify_params_dictionary example_map powerlaw_spec = Inr d"
    by (cases "verify_params_dictionary example_map powerlaw_spec") simp_all
  note D = T [OF h1, THEN conjunct2, rule_format, OF d]
  have m1: "(''dist'', PyFloat (Fin 100)) \<in> set ?A"
    by (simp add: all_defaults_def defaults_geometry_def)
  have m2: "(''psi'', PyFloat (Fin 1)) \<in> set ?A"
    by (simp add: all_defaults_def defaults_geometry_def defaults_profile_def defaults_mask_def)
  have m3: "''inc'' \<notin> fst ` set ?A \<union> {''vfunc'', ''beam''}"
    by (simp add: all_defaults_def defaults_geometry_def defaults_profile_def defaults_mask_def)
  have 6: "map_of d ''dist'' = Some (PyFloat (Fin 100))"
    using D [THEN conjunct1, rule_format, OF m1] by (simp add: ev)
  have 7: "map_of d ''psi'' = Some (PyFloat (Fin 1))"
    using D [THEN conjunct1, rule_format, OF m2] by (simp add: ev)
  have 8: "map_of d ''vfunc'' = Some (PyStr ''proj_vpow'')"
    using D [THEN conjunct2, THEN conjunct1] by (simp add: ev)
  have 9: "map_of d ''inc'' = Some (PyFloat (Fin 30))"
    using D [THEN conjunct2, THEN conjunct2, THEN conjunct2, rule_format, OF m3]
    by (simp add: ev)
  show ?thesis using 1 2 3 4 5 d 6 7 8 9 by blast
qed

section \<open>The power-law model\<close>

text \<open>
  The verified power-law dictionary: each \<open>pop\<close> of an absent key appends it with its
  default, so the table of defaults is evaluated stage by stage.
\<close>

lemma pop_default_absent:
  "map_of d k = None \<Longrightarrow> pop_default k dflt d = d @ [(k, dflt)]"
proof -
  assume a: "map_of d k = None"
  then have "k \<notin> fst ` set d" by (simp add: map_of_eq_None_iff)
  then have 1: "AList.delete k d = d"
    by (induction d) auto
  have 2: "AList.update k dflt d = d @ [(k, dflt)]" using \<open>k \<notin> fst ` set d\<close>
    by (induction d) auto
  show ?thesis by (simp add: pop_default_def a 1 2)
qed

lemma fill_defaults_Cons:
  "fill_defaults ((k, dflt) # table) d = fill_defaults table (pop_default k dflt d)"
  by (simp add: fill_defaults_def)

lemma fill_defaults_Nil: "fill_defaults [] d = d"
  by (simp add: fill_defaults_def)

lemma fill_geometry_powerlaw: "fill_defaults (defaults_geometry example_map) powerlaw_spec =
   [(''inc'', PyFloat (Fin 30)), (''PA'', PyFloat (Fin 45)), (''vp_100'', PyFloat (Fin 1000)),
      (''x0'', PyFloat (Fin 0)), (''y0'', PyFloat (Fin 0)), (''dist'', PyFloat (Fin 100)),
      (''vlsr'', NpFloat (Fin 2))]"
  by (simp add: defaults_geometry_def powerlaw_spec_def fill_defaults_Cons fill_defaults_Nil
       pop_default_absent example_map_def)

lemma verify_powerlaw:
  "verify_params_dictionary example_map powerlaw_spec = Inr powerlaw_params"
proof -
  have s2: "AList.update ''vfunc'' (PyStr ''proj_vpow'')
              (fill_defaults (defaults_geometry example_map) powerlaw_spec) =
     [(''inc'', PyFloat (Fin 30)), (''PA'', PyFloat (Fin 45)), (''vp_100'', PyFloat (Fin 1000)),
      (''x0'', PyFloat (Fin 0)), (''y0'', PyFloat (Fin 0)), (''dist'', PyFloat (Fin 100)),
      (''vlsr'', NpFloat (Fin 2)), (''vfunc'', PyStr ''proj_vpow'')]"
    by (simp add: fill_geometry_powerlaw)
  have s3: "fill_defaults defaults_profile
     [(''inc'', PyFloat (Fin 30)), (''PA'', PyFloat (Fin 45)), (''vp_100'', PyFloat (Fin 1000)),
      (''x0'', PyFloat (Fin 0)), (''y0'', PyFloat (Fin 0)), (''dist'', PyFloat (Fin 100)),
      (''vlsr'', NpFloat (Fin 2)), (''vfunc'', PyStr ''proj_vpow'')] = take 19 powerlaw_params"
    by (simp add: defaults_profile_def fill_defaults_Cons fill_defaults_Nil pop_default_absent
          powerlaw_params_def)
  have s4: "pop_default ''w_r'' (NpFloat (Fin (1 / 2))) (take 19 powerlaw_params)
            = take 20 powerlaw_params"
    by (simp add: pop_default_absent powerlaw_params_def)
  have s5: "fill_defaults defaults_mask (take 20 powerlaw_params) = take 29 powerlaw_params"
    by (simp add: defaults_mask_def fill_defaults_Cons fill_defaults_Nil pop_default_absent
          powerlaw_params_def)
  have s6: "pop_default ''exclude_v'' (PyBool False)
              (pop_default ''v_max'' (NpFloat (Fin 3))
                 (pop_default ''v_min'' (NpFloat (Fin 1)) (take 29 powerlaw_params)))
            = take 32 powerlaw_params"
    by (simp add: pop_default_absent powerlaw_params_def)
  have b: "check_bounds (take 32 powerlaw_params) ''r_min'' ''r_max'' = Inr ()"
    "check_bounds (take 32 powerlaw_params) ''PA_min'' ''PA_max'' = Inr ()"
    "check_bounds (take 32 powerlaw_params) ''v_min'' ''v_max'' = Inr ()"
    by (simp_all add: check_bounds_def getitem_def py_ge_def powerlaw_params_def pi_not_le_zero)
  have s7: "AList.update ''beam'' (PyBool (py_bool (kwarg (take 32 powerlaw_params) ''beam'' (PyBool False))))
              (AList.delete ''beam'' (take 32 powerlaw_params)) = powerlaw_params"
    by (simp add: kwarg_def powerlaw_params_def)
  have g: "\<not> get_is_none (fill_defaults (defaults_geometry example_map) powerlaw_spec) ''inc''"
    "\<not> get_is_none (fill_defaults (defaults_geometry example_map) powerlaw_spec) ''PA''"
    "\<not> get_is_none (fill_defaults (defaults_geometry example_map) powerlaw_spec) ''vp_100''"
    "get_is_none (fill_defaults (defaults_geometry example_map) powerlaw_spec) ''mstar''"
    by (simp_all add: fill_geometry_powerlaw get_is_none_def)
  show ?thesis
    by (simp add: verify_params_dictionary_def Let_def g s2 s3 example_py_max s4 s5
          example_nanmin example_nanmax s6 b s7)
qed


lemma disk_coords_powerlaw:
  "disk_coords example_map powerlaw_params =
     Inr (get_flared_coords (Fin 0) (Fin 0) [Fin (- 1), Fin 1] [Fin (- 1), Fin 1] (Fin 30)
            (Fin 45) (Fin 0) (Fin 0) (Fin (10 ^ 10)) (Fin 1) (Fin 1) (Fin 0.5) (Fin 0) (Fin 0) 5)"
  by (simp add: disk_coords_def disk_coords_body_def powerlaw_params_def example_map_def
        kwarg_def or_default_def as_float_def axis_arg_def py_lower_cylindrical
        inc_convention_def Let_def)

lemma proj_vpow_raises:
  "proj_vpow coords distance mstar inc vp_q vp_100 vp_qtaper vp_rtaper = Inl (NameError ''vr_q'')"
  by (simp add: proj_vpow_def load_global_def models_globals_def Let_def)

lemma isl_bind: "(\<And>x. m = Inr x \<Longrightarrow> isl (f x)) \<Longrightarrow> isl (bind_err m f)"
  by (cases m) auto

lemma isl_bind_left: "isl m \<Longrightarrow> isl (bind_err m f)"
  by (cases m) auto

lemma vphi_powerlaw_raises:
  assumes "map_of params ''vfunc'' \<noteq> Some (PyStr ''proj_vkep'')"
  shows "isl (vphi self params)"
  unfolding vphi_def
proof (rule isl_bind, rule isl_bind)
  fix coords vfunc
  assume "getitem params ''vfunc'' = Inr vfunc"
  then have "vfunc \<noteq> PyStr ''proj_vkep''"
    using assms by (auto simp: getitem_def split: option.splits)
  then show "isl (bind_err
       (if vfunc = PyStr ''proj_vkep'' then
          bind_err (getitem params ''dist'') (\<lambda>distance.
          bind_err (getitem params ''mstar'') (\<lambda>mstar.
          bind_err (getitem params ''inc'') (\<lambda>inc.
          bind_err (as_float distance) (\<lambda>distance.
          bind_err (as_float mstar) (\<lambda>mstar.
          bind_err (as_float inc) (\<lambda>inc.
            proj_vkep coords distance mstar inc))))))
        else
          bind_err (getitem params ''dist'') (\<lambda>distance.
          bind_err (getitem params ''mstar'') (\<lambda>mstar.
          bind_err (getitem params ''inc'') (\<lambda>inc.
          bind_err (getitem params ''vp_q'') (\<lambda>vp_q.
          bind_err (getitem params ''vp_100'') (\<lambda>vp_100.
          bind_err (getitem params ''vp_qtaper'') (\<lambda>vp_qtaper.
          bind_err (getitem params ''vp_rtaper'') (\<lambda>vp_rtaper.
          bind_err (as_float distance) (\<lambda>distance.
          bind_err (as_float inc) (\<lambda>inc.
          bind_err (as_float vp_q) (\<lambda>vp_q.
          bind_err (as_float vp_100) (\<lambda>vp_100.
          bind_err (as_float vp_qtaper) (\<lambda>vp_qtaper.
          bind_err (as_float vp_rtaper) (\<lambda>vp_rtaper.
            proj_vpow coords distance mstar inc vp_q vp_100 vp_qtaper vp_rtaper))))))))))))))
       (\<lambda>v_phi.
     bind_err (getitem params ''vlsr'') (\<lambda>v0.
     bind_err (as_float v0) (\<lambda>v0.
       Inr (map (map (\<lambda>v. v + v0)) v_phi)))))"
    by (simp only: if_False) (rule isl_bind_left, intro isl_bind, simp add: proj_vpow_raises)
qed

text \<open>
  C1: the power-law model evaluation does not return a value. For the specification
  \<open>{'inc': 30, 'PA': 45, 'vp_100': 1000}\<close>, which holds \<open>vp_100\<close> and not \<open>mstar\<close>,
  \<open>verify_params_dictionary\<close> succeeds and returns a dictionary with \<open>vp_100\<close> and without
  \<open>mstar\<close>; on it \<open>vphi\<close>, and so \<open>_make_model\<close>, raises \<open>KeyError\<close> at \<open>params['mstar']\<close>,
  which the power-law branch reads. With \<open>mstar = None\<close> added, \<open>proj_vpow\<close> is reached and
  raises \<open>NameError\<close> at \<open>vr_q\<close>, which is neither a parameter nor a global of the module,
  so the radial term of the formula is never computed.
\<close>

theorem vphi_powerlaw_fails:
  "verify_params_dictionary example_map powerlaw_spec = Inr powerlaw_params
   \<and> map_of powerlaw_params ''vp_100'' = Some (PyFloat (Fin 1000))
   \<and> map_of powerlaw_params ''mstar'' = None
   \<and> vphi example_map powerlaw_params = Inl (KeyError ''mstar'')
   \<and> make_model example_map powerlaw_params = Inl (KeyError ''mstar'')
   \<and> vphi example_map ((''mstar'', PyNone) # powerlaw_params) = Inl (NameError ''vr_q'')"
proof -
  have none: "map_of powerlaw_params ''mstar'' = None"
    "map_of powerlaw_params ''vp_100'' = Some (PyFloat (Fin 1000))"
    by (simp_all add: powerlaw_params_def)
  have items: "getitem powerlaw_params ''vfunc'' = Inr (PyStr ''proj_vpow'')"
    "getitem powerlaw_params ''dist'' = Inr (PyFloat (Fin 100))"
    "getitem powerlaw_params ''mstar'' = Inl (KeyError ''mstar'')"
    by (simp_all add: getitem_def powerlaw_params_def)
  have v: "vphi example_map powerlaw_params = Inl (KeyError ''mstar'')"
    by (simp add: vphi_def disk_coords_powerlaw items)
  have d2: "disk_coords example_map ((''mstar'', PyNone) # powerlaw_params)
            = Inr (get_flared_coords (Fin 0) (Fin 0) [Fin (- 1), Fin 1] [Fin (- 1), Fin 1] (Fin 30)
            (Fin 45) (Fin 0) (Fin 0) (Fin (10 ^ 10)) (Fin 1) (Fin 1) (Fin 0.5) (Fin 0) (Fin 0) 5)"
    by (simp add: disk_coords_def disk_coords_body_def powerlaw_params_def example_map_def
        kwarg_def or_default_def as_float_def axis_arg_def py_lower_cylindrical
        inc_convention_def Let_def)
  have items2: "getitem ((''mstar'', PyNone) # powerlaw_params) ''vfunc'' = Inr (PyStr ''proj_vpow'')"
    "getitem ((''mstar'', PyNone) # powerlaw_params) ''dist'' = Inr (PyFloat (Fin 100))"
    "getitem ((''mstar'', PyNone) # powerlaw_params) ''mstar'' = Inr PyNone"
    "getitem ((''mstar'', PyNone) # powerlaw_params) ''inc'' = Inr (PyFloat (Fin 30))"
    "getitem ((''mstar'', PyNone) # powerlaw_params) ''vp_q'' = Inr (PyFloat (Fin (- 0.5)))"
    "getitem ((''mstar'', PyNone) # powerlaw_params) ''vp_100'' = Inr (PyFloat (Fin 1000))"
    "getitem ((''mstar'', PyNone) # powerlaw_params) ''vp_qtaper'' = Inr (PyFloat (Fin 1))"
    "getitem ((''mstar'', PyNone) # powerlaw_params) ''vp_rtaper'' = Inr (PyFloat (Fin (10 ^ 10)))"
    by (simp_all add: getitem_def powerlaw_params_def)
  have v2: "vphi example_map ((''mstar'', PyNone) # powerlaw_params) = Inl (NameError ''vr_q'')"
    by (simp add: vphi_def d2 items2 as_float_def proj_vpow_raises)
  have m: "make_model example_map powerlaw_params = Inl (KeyError ''mstar'')"
    by (simp add: make_model_def v)
  show ?thesis
    using verify_powerlaw none v v2 m by simp
qed

end
